theory Spec2Isabelle
  imports Main "HOL-Library.Word" "HOL-Library.AList"
begin

unbundle bit_operations_syntax

section \<open>IndexedDbVFS: a versioned block store with a zero-store rollback journal\<close>

text \<open>
  A shallow embedding of \<^verbatim>\<open>src/examples/IndexedDbVFS.js\<close>.

  Conventions of the embedding.
  \<^item> JavaScript numbers that hold offsets, sizes, indices and versions are \<open>int\<close>;
    \<open>x | 0\<close> is \<open>toInt32\<close>. A number that may be \<open>NaN\<close> is an \<open>int option\<close>.
  \<^item> An \<^verbatim>\<open>Int8Array\<close> is a list of 8-bit words; \<open>sint\<close> reads an element the way
    JavaScript does, \<open>uint\<close> gives its unsigned value.
  \<^item> The operand \<^verbatim>\<open>pData = {size, value}\<close> is the byte list \<open>value\<close>; \<open>size\<close> is its
    length (the interface passes a buffer of exactly \<open>size\<close> bytes).
  \<^item> The opened-file entries are objects shared by \<^verbatim>\<open>#mapIdToFile\<close> and
    \<^verbatim>\<open>#mapPathToFile\<close>: both maps hold references into one store of entries.
  \<^item> The IndexedDB object store \<^verbatim>\<open>blocks\<close> is the list of its records; a request
    issued through \<^verbatim>\<open>#idb.run\<close> takes effect at once, and every put, delete and
    awaited sync is also appended to a log of issued requests.
  \<^item> A thrown exception is the value \<open>Inl e\<close>; the state it leaves behind is not kept.
\<close>

subsection \<open>Constants of the engine interface\<close>

text \<open>Modelled from the spec: \<^verbatim>\<open>VFS.js\<close> is not part of the sources at hand; its
  constants are the status codes, open flags and lock levels of the engine's public
  interface (spec section 6).\<close>

definition SQLITE_OK :: int where "SQLITE_OK = 0"
definition SQLITE_IOERR_SHORT_READ :: int where "SQLITE_IOERR_SHORT_READ = 522"
definition SQLITE_OPEN_DELETEONCLOSE :: int where "SQLITE_OPEN_DELETEONCLOSE = 8"
definition SQLITE_OPEN_MAIN_JOURNAL :: int where "SQLITE_OPEN_MAIN_JOURNAL = 2048"
definition SQLITE_OPEN_TEMP_JOURNAL :: int where "SQLITE_OPEN_TEMP_JOURNAL = 4096"

definition BLOCK_SIZE :: nat where "BLOCK_SIZE = 4096"

subsection \<open>Numbers and typed arrays\<close>

type_synonym byte = "8 word"

datatype error = TypeError | RangeError | DataError | OutsideModel

definition toInt32 :: "int \<Rightarrow> int" where
  "toInt32 x = (x + 2147483648) mod 4294967296 - 2147483648"

text \<open>The remainder operator \<^verbatim>\<open>%\<close> takes the sign of the dividend.\<close>

definition js_rem :: "int \<Rightarrow> int \<Rightarrow> int" where
  "js_rem a b = sgn a * (\<bar>a\<bar> mod \<bar>b\<bar>)"

text \<open>\<^verbatim>\<open>a.subarray(bgn, end)\<close> for \<open>0 \<le> bgn\<close>: the view is clipped to the array.\<close>

definition subarray :: "byte list \<Rightarrow> int \<Rightarrow> int \<Rightarrow> byte list" where
  "subarray xs bgn end = take (nat (end - bgn)) (drop (nat bgn) xs)"

text \<open>\<^verbatim>\<open>target.set(source, offset)\<close> throws a RangeError when the source does not fit.\<close>

definition ta_set :: "byte list \<Rightarrow> byte list \<Rightarrow> nat \<Rightarrow> error + byte list" where
  "ta_set target source off =
     (if off + length source > length target then Inl RangeError
      else Inr (take off target @ source @ drop (off + length source) target))"

text \<open>\<^verbatim>\<open>a.fill(v, start)\<close> for \<open>0 \<le> start\<close>: the elements from \<open>start\<close> on become \<open>v\<close>.\<close>

definition ta_fill :: "byte list \<Rightarrow> byte \<Rightarrow> int \<Rightarrow> byte list" where
  "ta_fill xs v start = take (nat start) xs @ replicate (length xs - nat start) v"

text \<open>\<^verbatim>\<open>DataView.getUint32(off)\<close> and \<^verbatim>\<open>setUint32(off, v)\<close>, big-endian. A \<open>NaN\<close> is
  stored as 0, any other number modulo \<open>2^32\<close>.\<close>

definition getUint32 :: "byte list \<Rightarrow> nat \<Rightarrow> error + int" where
  "getUint32 xs off =
     (if off + 4 > length xs then Inl RangeError
      else Inr (uint (xs ! off) * 16777216 + uint (xs ! (off + 1)) * 65536
                + uint (xs ! (off + 2)) * 256 + uint (xs ! (off + 3))))"

definition uint32_bytes :: "int option \<Rightarrow> byte list" where
  "uint32_bytes v =
     (case v of None \<Rightarrow> [0, 0, 0, 0]
      | Some n \<Rightarrow> [word_of_int (n div 16777216), word_of_int (n div 65536),
                   word_of_int (n div 256), word_of_int n])"

definition setUint32 :: "byte list \<Rightarrow> nat \<Rightarrow> int option \<Rightarrow> error + byte list" where
  "setUint32 xs off v =
     (if off + 4 > length xs then Inl RangeError
      else Inr (take off xs @ uint32_bytes v @ drop (off + 4) xs))"

subsection \<open>Records of the object store\<close>

text \<open>A \<^verbatim>\<open>FileBlock\<close>; only block 0 carries \<open>fileSize\<close>.\<close>

record fileBlock =
  name :: string
  index :: int
  version :: int
  data :: "byte list"
  fileSize :: "int option"

text \<open>The store holds file blocks and, under the index \<^verbatim>\<open>'purge'\<close>, one purge record per
  file whose payload is a \<^verbatim>\<open>Map\<close> from page index to version.\<close>

datatype kvrec =
  Block fileBlock
| PurgeRec string int "(int \<times> int) list"

fun rec_name :: "kvrec \<Rightarrow> string" where
  "rec_name (Block b) = name b"
| "rec_name (PurgeRec n v m) = n"

fun rec_version :: "kvrec \<Rightarrow> int" where
  "rec_version (Block b) = version b"
| "rec_version (PurgeRec n v m) = v"

text \<open>The primary key \<^verbatim>\<open>[name, index, version]\<close>; \<open>None\<close> stands for the index
  \<^verbatim>\<open>'purge'\<close>, which as a string sorts after every number.\<close>

fun rec_key :: "kvrec \<Rightarrow> string \<times> int option \<times> int" where
  "rec_key (Block b) = (name b, Some (index b), version b)"
| "rec_key (PurgeRec n v m) = (n, None, v)"

fun block_of :: "kvrec \<Rightarrow> fileBlock option" where
  "block_of (Block b) = Some b"
| "block_of (PurgeRec n v m) = None"

text \<open>The lower end of a key range over the versions of one \<open>(name, index)\<close>.\<close>

datatype lower = AnyVersion | AtLeast int | Above int

fun above :: "lower \<Rightarrow> int \<Rightarrow> bool" where
  "above AnyVersion v = True"
| "above (AtLeast l) v = (l \<le> v)"
| "above (Above l) v = (l < v)"

text \<open>The first record of a range in key order is the one with the least version.\<close>

fun newest :: "fileBlock list \<Rightarrow> fileBlock option" where
  "newest [] = None"
| "newest (b # bs) =
     (case newest bs of None \<Rightarrow> Some b
      | Some c \<Rightarrow> if version b \<le> version c then Some b else Some c)"

text \<open>\<^verbatim>\<open>blocks.get(IDBKeyRange.bound([nm, i, lo], [nm, i, Infinity]))\<close>.\<close>

definition blocks_get :: "kvrec list \<Rightarrow> string \<Rightarrow> int \<Rightarrow> lower \<Rightarrow> fileBlock option" where
  "blocks_get kvs nm i lo =
     newest (filter (\<lambda>b. name b = nm \<and> index b = i \<and> above lo (version b))
                    (List.map_filter block_of kvs))"

text \<open>\<^verbatim>\<open>blocks.get([nm, 'purge', 0])\<close>.\<close>

fun purge_get :: "kvrec list \<Rightarrow> string \<Rightarrow> (int \<times> int) list option" where
  "purge_get [] nm = None"
| "purge_get (Block b # kvs) nm = purge_get kvs nm"
| "purge_get (PurgeRec n v m # kvs) nm =
     (if n = nm \<and> v = 0 then Some m else purge_get kvs nm)"

text \<open>The key ranges that the file system deletes.\<close>

datatype delrange =
  AllOf string          \<comment> \<open>\<^verbatim>\<open>bound([path], [path, []])\<close>: every record of the file\<close>
| Beyond string int     \<comment> \<open>\<^verbatim>\<open>bound([path, i, Infinity], [path, Infinity, Infinity])\<close>\<close>
| NewerThan string int  \<comment> \<open>index \<^verbatim>\<open>version\<close>: \<^verbatim>\<open>bound([path], [path, v], false, true)\<close>\<close>

fun in_range :: "delrange \<Rightarrow> kvrec \<Rightarrow> bool" where
  "in_range (AllOf p) r = (rec_name r = p)"
| "in_range (Beyond p i) r = (case r of Block b \<Rightarrow> name b = p \<and> i < index b | _ \<Rightarrow> False)"
| "in_range (NewerThan p v) r = (rec_name r = p \<and> rec_version r < v)"

datatype idb_op = Put kvrec | Delete delrange | Sync

subsection \<open>The file system object\<close>

datatype durability = Default | Strict | Relaxed
datatype purge_mode = Deferred | Manual

type_synonym ref = nat

record openedFileEntry =
  path :: string
  flags :: int
  block0 :: fileBlock
  journalPages :: "int option list option"
  changedPages :: "int set option"
  cachedPageIndex :: "int option"
  cachedPageEntry :: "byte list option"

record vfs =
  opt_durability :: durability
  opt_purge :: purge_mode
  opt_purgeAtLeast :: int
  mapIdToFile :: "int \<rightharpoonup> ref"
  mapPathToFile :: "string \<rightharpoonup> ref"
  heap :: "ref \<Rightarrow> openedFileEntry"
  blocks :: "kvrec list"
  idb_log :: "idb_op list"
  pendingPurges :: "string set"
  this_cachedPageIndex :: "int option"
  this_cachedPageEntry :: "byte list option"

definition idb_put :: "kvrec \<Rightarrow> vfs \<Rightarrow> vfs" where
  "idb_put r st =
     st\<lparr>blocks := filter (\<lambda>x. rec_key x \<noteq> rec_key r) (blocks st) @ [r],
        idb_log := idb_log st @ [Put r]\<rparr>"

definition idb_delete :: "delrange \<Rightarrow> vfs \<Rightarrow> vfs" where
  "idb_delete d st =
     st\<lparr>blocks := filter (\<lambda>x. \<not> in_range d x) (blocks st),
        idb_log := idb_log st @ [Delete d]\<rparr>"

definition idb_sync :: "vfs \<Rightarrow> vfs" where
  "idb_sync st = st\<lparr>idb_log := idb_log st @ [Sync]\<rparr>"

definition update_file :: "ref \<Rightarrow> (openedFileEntry \<Rightarrow> openedFileEntry) \<Rightarrow> vfs \<Rightarrow> vfs" where
  "update_file r g st = st\<lparr>heap := (heap st)(r := g (heap st r))\<rparr>"

definition isJournal :: "openedFileEntry \<Rightarrow> bool" where
  "isJournal file =
     (flags file AND (SQLITE_OPEN_MAIN_JOURNAL OR SQLITE_OPEN_TEMP_JOURNAL) \<noteq> 0)"

text \<open>\<^verbatim>\<open>file.path.replace(/-journal$/, '')\<close>.\<close>

definition strip_journal :: "string \<Rightarrow> string" where
  "strip_journal p =
     (if length p \<ge> 8 \<and> drop (length p - 8) p = ''-journal''
      then take (length p - 8) p else p)"

definition getJournalDatabasePath :: "openedFileEntry \<Rightarrow> string" where
  "getJournalDatabasePath file = strip_journal (path file)"

subsection \<open>xClose\<close>

definition xClose :: "vfs \<Rightarrow> int \<Rightarrow> int \<times> vfs" where
  "xClose st fileId =
     (case mapIdToFile st fileId of
        None \<Rightarrow> (SQLITE_OK, st)
      | Some r \<Rightarrow>
          let file = heap st r;
              st1 = st\<lparr>mapIdToFile := (mapIdToFile st)(fileId := None),
                       mapPathToFile := (mapPathToFile st)(path file := None)\<rparr>;
              st2 = (if flags file AND SQLITE_OPEN_DELETEONCLOSE \<noteq> 0
                     then idb_delete (AllOf (path file)) st1 else st1)
          in (SQLITE_OK, st2))"

subsection \<open>Reading database files\<close>

text \<open>Lines 181-189 and 228-236: block 0 is served from the cached copy unless the
  stored one is newer.\<close>

definition cache_block0 :: "vfs \<Rightarrow> ref \<Rightarrow> int \<Rightarrow> fileBlock \<Rightarrow> vfs \<times> fileBlock" where
  "cache_block0 st r blockIndex block =
     (if blockIndex = 0 then
        (if version (block0 (heap st r)) > version block
         then (update_file r (\<lambda>f. f\<lparr>block0 := block\<rparr>) st, block)
         else (st, block0 (heap st r)))
      else (st, block))"

text \<open>The loop of \<^verbatim>\<open>#xReadGeneral\<close>. It returns the state, the buffer and
  \<open>bufferOffset\<close>. The callers pass a positive block size and a non-negative offset.\<close>

function xReadGeneral_loop ::
  "vfs \<Rightarrow> ref \<Rightarrow> byte list \<Rightarrow> int \<Rightarrow> int \<Rightarrow> int \<Rightarrow> int \<Rightarrow> error + (vfs \<times> byte list \<times> int)" where
  "xReadGeneral_loop st r buf blockSize bufferOffset fileOffset bytesRemaining =
     (if bytesRemaining = 0 then Inr (st, buf, bufferOffset)
      else if blockSize \<le> 0 \<or> fileOffset < 0 then Inl OutsideModel
      else
        let file = heap st r;
            blockIndex = fileOffset div blockSize;
            blockOffset = fileOffset mod blockSize;
            blockBytes = min (blockSize - blockOffset) bytesRemaining;
            fetched = (case blocks_get (blocks st) (path file) blockIndex
                              (AtLeast (version (block0 file))) of
                         None \<Rightarrow> block0 file | Some b \<Rightarrow> b);
            st' = fst (cache_block0 st r blockIndex fetched);
            block = snd (cache_block0 st r blockIndex fetched)
        in case ta_set (drop (nat bufferOffset) buf)
                  (subarray (data block) blockOffset (blockOffset + blockBytes)) 0 of
             Inl e \<Rightarrow> Inl e
           | Inr rest \<Rightarrow>
               xReadGeneral_loop st' r (take (nat bufferOffset) buf @ rest) blockSize
                 (bufferOffset + blockBytes) (fileOffset + blockBytes)
                 (bytesRemaining - blockBytes))"
  by pat_completeness auto
termination
  apply (relation "measure (\<lambda>(st, r, buf, blockSize, bufferOffset, fileOffset, bytesRemaining).
                     nat \<bar>bytesRemaining\<bar>)")
   apply simp
  subgoal for st r buf blockSize bufferOffset fileOffset bytesRemaining
    apply (cases "0 < blockSize")
     apply (frule pos_mod_bound [of blockSize fileOffset])
     apply (auto simp: min_def simp del: pos_mod_bound)
    done
  done

definition xReadGeneral ::
  "vfs \<Rightarrow> ref \<Rightarrow> byte list \<Rightarrow> int \<Rightarrow> error + (int \<times> vfs \<times> byte list)" where
  "xReadGeneral st r pData iOffset =
     (let file = heap st r in
      case fileSize (block0 file) of
        None \<Rightarrow> Inl OutsideModel
      | Some fsz \<Rightarrow>
          let bgn = min iOffset fsz;
              end = min (iOffset + int (length pData)) fsz;
              blockSize = int (length (data (block0 file)))
          in case xReadGeneral_loop st r pData blockSize 0 iOffset (end - bgn) of
               Inl e \<Rightarrow> Inl e
             | Inr (st', buf, bufferOffset) \<Rightarrow>
                 if bufferOffset \<noteq> int (length pData)
                 then Inr (SQLITE_IOERR_SHORT_READ, st',
                           take (nat bufferOffset) buf
                           @ ta_fill (drop (nat bufferOffset) buf) 0
                               (int (length pData) - bufferOffset))
                 else Inr (SQLITE_OK, st', buf))"

subsection \<open>Reading journal files\<close>

text \<open>\<^verbatim>\<open>#checksum\<close>: \<open>result\<close> is a number that becomes \<open>NaN\<close> (\<open>None\<close>) as soon as
  \<open>data[x]\<close> is read outside the array.\<close>

function checksum_loop :: "byte list \<Rightarrow> int option \<Rightarrow> int \<Rightarrow> int option" where
  "checksum_loop d result x =
     (if x > 0 then
        checksum_loop d
          (case result of
             None \<Rightarrow> None
           | Some s \<Rightarrow>
               if nat x < length d
               then (let v = sint (d ! nat x) in Some (s + (if v \<ge> 0 then v else v + 256)))
               else None)
          (x - 200)
      else result)"
  by pat_completeness auto
termination
  by (relation "measure (\<lambda>(d, result, x). nat x)") auto

definition checksum :: "byte list \<Rightarrow> int \<Rightarrow> int \<Rightarrow> int option" where
  "checksum d nonce pageSize = checksum_loop d (Some nonce) (pageSize - 200)"

text \<open>Lines 292-299: the rollback page entry built from a block of the database file:
  the 1-based page index, the page bytes, the checksum.\<close>

definition build_page_entry ::
  "int \<Rightarrow> byte list \<Rightarrow> int \<Rightarrow> int \<Rightarrow> int \<Rightarrow> error + byte list" where
  "build_page_entry pageIndex blockData nonce pageSize entrySize =
     (case setUint32 (replicate (nat entrySize) 0) 0 (Some (pageIndex + 1)) of
        Inl e \<Rightarrow> Inl e
      | Inr e1 \<Rightarrow>
          (case ta_set e1 blockData 4 of
             Inl e \<Rightarrow> Inl e
           | Inr e2 \<Rightarrow>
               setUint32 e2 (nat (entrySize - 4)) (checksum blockData nonce pageSize)))"

text \<open>\<^verbatim>\<open>a[i]\<close> on an array with holes: \<open>None\<close> is \<^verbatim>\<open>undefined\<close>.\<close>

definition array_get :: "'a option list \<Rightarrow> int \<Rightarrow> 'a option" where
  "array_get xs i = (if 0 \<le> i \<and> nat i < length xs then xs ! nat i else None)"

text \<open>Lines 281-299: the page entry regenerated from the database file. The lower
  bound of the key range is open, so the block of the current version is not read.\<close>

definition rebuilt_page_entry ::
  "kvrec list \<Rightarrow> byte list \<Rightarrow> string \<Rightarrow> fileBlock \<Rightarrow> int option \<Rightarrow> error + byte list" where
  "rebuilt_page_entry kvs header dbPath dbBlock0 pageIndex =
     (case pageIndex of
        None \<Rightarrow> Inl DataError
      | Some pi \<Rightarrow>
          (case blocks_get kvs dbPath pi (Above (version dbBlock0)) of
             None \<Rightarrow> Inl TypeError
           | Some block \<Rightarrow>
               (case getUint32 header 12 of
                  Inl e \<Rightarrow> Inl e
                | Inr nonce \<Rightarrow>
                    build_page_entry pi (data block) nonce
                      (int (length (data dbBlock0)))
                      (int (length (data dbBlock0)) + 8))))"

text \<open>Lines 276-300: the page entry is rebuilt unless the looked-up page index equals the
  entry's \<open>cachedPageIndex\<close>. The rebuilt entry is stored on the file system object
  (\<^verbatim>\<open>this.cachedPageEntry\<close>), not on the entry.\<close>

definition refresh_page_entry ::
  "vfs \<Rightarrow> openedFileEntry \<Rightarrow> string \<Rightarrow> openedFileEntry \<Rightarrow> int option \<Rightarrow> error + vfs" where
  "refresh_page_entry st file dbPath dbFile pageIndex =
     (if cachedPageIndex file \<noteq> pageIndex then
        (case rebuilt_page_entry (blocks st) (data (block0 file)) dbPath (block0 dbFile)
                pageIndex of
           Inl e \<Rightarrow> Inl e
         | Inr entry \<Rightarrow>
             Inr (st\<lparr>this_cachedPageIndex := pageIndex,
                     this_cachedPageEntry := Some entry\<rparr>))
      else Inr st)"

definition xReadJournal ::
  "vfs \<Rightarrow> ref \<Rightarrow> byte list \<Rightarrow> int \<Rightarrow> error + (int \<times> vfs \<times> byte list)" where
  "xReadJournal st r pData iOffset =
     (let file = heap st r; dbPath = getJournalDatabasePath file in
      case getUint32 (data (block0 file)) 20 of
        Inl e \<Rightarrow> Inl e
      | Inr sectorSize \<Rightarrow>
          (case mapPathToFile st dbPath of
             None \<Rightarrow> Inl TypeError
           | Some d \<Rightarrow>
               let dbFile = heap st d;
                   entrySize = int (length (data (block0 dbFile))) + 8
               in if iOffset < 0 then Inl OutsideModel
                  else if iOffset \<ge> sectorSize then
                    (case journalPages dbFile of
                       None \<Rightarrow> Inl TypeError
                     | Some jp \<Rightarrow>
                         let entryIndex = toInt32 ((iOffset - sectorSize) div entrySize);
                             pageIndex = array_get jp entryIndex
                         in case refresh_page_entry st file dbPath dbFile pageIndex of
                              Inl e \<Rightarrow> Inl e
                            | Inr st' \<Rightarrow>
                                (case this_cachedPageEntry st' of
                                   None \<Rightarrow> Inl TypeError
                                 | Some entry \<Rightarrow>
                                     let skip = (iOffset - sectorSize) mod entrySize in
                                     case ta_set pData
                                            (subarray entry skip (skip + int (length pData))) 0 of
                                       Inl e \<Rightarrow> Inl e
                                     | Inr buf \<Rightarrow> Inr (SQLITE_OK, st', buf)))
                  else
                    (case ta_set pData
                            (subarray (data (block0 file)) iOffset
                               (iOffset + int (length pData))) 0 of
                       Inl e \<Rightarrow> Inl e
                     | Inr buf \<Rightarrow> Inr (SQLITE_OK, st, buf))))"

subsection \<open>xRead\<close>

definition xRead ::
  "vfs \<Rightarrow> int \<Rightarrow> byte list \<Rightarrow> int \<Rightarrow> error + (int \<times> vfs \<times> byte list)" where
  "xRead st fileId pData iOffset =
     (case mapIdToFile st fileId of
        None \<Rightarrow> Inl TypeError
      | Some r \<Rightarrow>
          let file = heap st r in
          if isJournal file then xReadJournal st r pData iOffset
          else
            let blockSize = int (length (data (block0 file))) in
            if iOffset < 0 \<or> blockSize = 0 then Inl OutsideModel
            else
              let blockIndex = toInt32 (iOffset div blockSize) in
              if iOffset + int (length pData) > (blockIndex + 1) * blockSize
              then xReadGeneral st r pData iOffset
              else
                (case fileSize (block0 file) of
                   None \<Rightarrow> Inl OutsideModel
                 | Some fsz \<Rightarrow>
                     if iOffset \<ge> fsz
                     then Inr (SQLITE_IOERR_SHORT_READ, st,
                               ta_fill pData 0 (int (length pData)))
                     else
                       (case blocks_get (blocks st) (path file) blockIndex
                               (AtLeast (version (block0 file))) of
                          None \<Rightarrow> Inl TypeError
                        | Some fetched \<Rightarrow>
                            let st' = fst (cache_block0 st r blockIndex fetched);
                                block = snd (cache_block0 st r blockIndex fetched);
                                blockOffset = iOffset mod blockSize
                            in case ta_set pData
                                      (subarray (data block) blockOffset
                                         (blockOffset + int (length pData))) 0 of
                                 Inl e \<Rightarrow> Inl e
                               | Inr buf \<Rightarrow> Inr (SQLITE_OK, st', buf))))"

subsection \<open>Writing database files\<close>

text \<open>\<^verbatim>\<open>file.changedPages?.add(blockIndex)\<close>.\<close>

definition add_changed :: "int \<Rightarrow> openedFileEntry \<Rightarrow> openedFileEntry" where
  "add_changed i f = f\<lparr>changedPages := map_option (insert i) (changedPages f)\<rparr>"

definition set_fileSize :: "int \<Rightarrow> openedFileEntry \<Rightarrow> openedFileEntry" where
  "set_fileSize n f = f\<lparr>block0 := (block0 f)\<lparr>fileSize := Some n\<rparr>\<rparr>"

definition set_block0_data :: "byte list \<Rightarrow> openedFileEntry \<Rightarrow> openedFileEntry" where
  "set_block0_data d f = f\<lparr>block0 := (block0 f)\<lparr>data := d\<rparr>\<rparr>"

text \<open>A block built afresh for the current version of the file (lines 335-340, 390-395).\<close>

definition fresh_block :: "openedFileEntry \<Rightarrow> int \<Rightarrow> fileBlock" where
  "fresh_block file blockIndex =
     \<lparr>name = name (block0 file), index = blockIndex, version = version (block0 file),
      data = replicate (length (data (block0 file))) 0, fileSize = None\<rparr>"

text \<open>The loop of \<^verbatim>\<open>#xWriteGeneral\<close>: read, modify, write for each touched block.\<close>

function xWriteGeneral_loop ::
  "vfs \<Rightarrow> ref \<Rightarrow> byte list \<Rightarrow> int \<Rightarrow> int \<Rightarrow> int \<Rightarrow> int \<Rightarrow> int \<Rightarrow> error + vfs" where
  "xWriteGeneral_loop st r pData blockSize lastBlockIndex bufferOffset fileOffset bytesRemaining =
     (if bytesRemaining = 0 then Inr st
      else if blockSize \<le> 0 \<or> fileOffset < 0 then Inl OutsideModel
      else
        let file = heap st r;
            blockIndex = fileOffset div blockSize;
            blockOffset = fileOffset mod blockSize;
            blockBytes = min (blockSize - blockOffset) bytesRemaining
        in case (if blockIndex = 0 then Some (block0 file)
                 else if blockIndex \<le> lastBlockIndex \<and> blockBytes < blockSize
                 then blocks_get (blocks st) (path file) blockIndex AnyVersion
                 else Some (fresh_block file blockIndex)) of
             None \<Rightarrow> Inl TypeError
           | Some block \<Rightarrow>
               (case ta_set (data block)
                       (subarray pData bufferOffset (bufferOffset + blockBytes))
                       (nat blockOffset) of
                  Inl e \<Rightarrow> Inl e
                | Inr d \<Rightarrow>
                    let st1 = (if blockIndex = 0 then update_file r (set_block0_data d) st
                               else idb_put (Block (block\<lparr>data := d\<rparr>)) st);
                        st2 = update_file r (add_changed blockIndex) st1
                    in xWriteGeneral_loop st2 r pData blockSize lastBlockIndex
                         (bufferOffset + blockBytes) (fileOffset + blockBytes)
                         (bytesRemaining - blockBytes)))"
  by pat_completeness auto
termination
  apply (relation "measure (\<lambda>(st, r, pData, blockSize, lastBlockIndex, bufferOffset,
                       fileOffset, bytesRemaining). nat \<bar>bytesRemaining\<bar>)")
   apply simp
  subgoal for st r pData blockSize lastBlockIndex bufferOffset fileOffset bytesRemaining
    apply (cases "0 < blockSize")
     apply (frule pos_mod_bound [of blockSize fileOffset])
     apply (auto simp: min_def simp del: pos_mod_bound)
    done
  done

definition xWriteGeneral :: "vfs \<Rightarrow> ref \<Rightarrow> byte list \<Rightarrow> int \<Rightarrow> error + (int \<times> vfs)" where
  "xWriteGeneral st r pData iOffset =
     (let file = heap st r; blockSize = int (length (data (block0 file))) in
      case fileSize (block0 file) of
        None \<Rightarrow> Inl OutsideModel
      | Some fsz \<Rightarrow>
          if blockSize = 0 then Inl OutsideModel
          else
            let lastBlockIndex = fsz div blockSize in
            case xWriteGeneral_loop st r pData blockSize lastBlockIndex 0 iOffset
                   (int (length pData)) of
              Inl e \<Rightarrow> Inl e
            | Inr st' \<Rightarrow>
                (case fileSize (block0 (heap st' r)) of
                   None \<Rightarrow> Inl OutsideModel
                 | Some fsz' \<Rightarrow>
                     Inr (SQLITE_OK,
                          update_file r (set_fileSize (max fsz' (iOffset + int (length pData))))
                            st')))"

text \<open>Lines 327-352, the part of \<^verbatim>\<open>xWrite\<close> after the check for the slow path.\<close>

definition xWrite_fast ::
  "vfs \<Rightarrow> ref \<Rightarrow> byte list \<Rightarrow> int \<Rightarrow> int \<Rightarrow> error + (int \<times> vfs)" where
  "xWrite_fast st r pData iOffset blockIndex =
     (case fileSize (block0 (heap st r)) of
        None \<Rightarrow> Inl OutsideModel
      | Some fsz \<Rightarrow>
          let st1 = update_file r (set_fileSize (max fsz (iOffset + int (length pData)))) st;
              file = heap st1 r;
              block = (if blockIndex = 0 then block0 file else fresh_block file blockIndex)
          in case ta_set (data block) pData 0 of
               Inl e \<Rightarrow> Inl e
             | Inr d \<Rightarrow>
                 let st2 = (if blockIndex = 0 then update_file r (set_block0_data d) st1
                            else idb_put (Block (block\<lparr>data := d\<rparr>)) st1)
                 in Inr (SQLITE_OK, update_file r (add_changed blockIndex) st2))"

subsection \<open>Writing journal files\<close>

text \<open>\<^verbatim>\<open>a[i] = v\<close> on an array: an index beyond the end leaves holes; a negative index
  sets a property that neither \<^verbatim>\<open>for ... of\<close> nor a read at an index \<open>\<ge> 0\<close> sees.\<close>

definition array_store :: "'a option list \<Rightarrow> int \<Rightarrow> 'a \<Rightarrow> 'a option list" where
  "array_store xs i v =
     (if i < 0 then xs
      else if nat i < length xs then xs[nat i := Some v]
      else xs @ replicate (nat i - length xs) None @ [Some v])"

text \<open>Lines 439-449: the header just written begins a new journalled transaction.\<close>

definition begin_transaction :: "ref \<Rightarrow> ref \<Rightarrow> vfs \<Rightarrow> vfs" where
  "begin_transaction r d st =
     (let st1 = update_file d (\<lambda>f. f\<lparr>journalPages := Some [], changedPages := Some {}\<rparr>) st;
          st2 = update_file r (\<lambda>f. f\<lparr>cachedPageIndex := Some (- 1),
                                       cachedPageEntry := None\<rparr>) st1
      in update_file d (\<lambda>f. f\<lparr>block0 := (block0 f)\<lparr>version := version (block0 f) - 1\<rparr>\<rparr>) st2)"

text \<open>Line 466.\<close>

definition extend_fileSize :: "ref \<Rightarrow> int \<Rightarrow> vfs \<Rightarrow> error + (int \<times> vfs)" where
  "extend_fileSize r n st =
     (case fileSize (block0 (heap st r)) of
        None \<Rightarrow> Inl OutsideModel
      | Some fsz \<Rightarrow> Inr (SQLITE_OK, update_file r (set_fileSize (max fsz n)) st))"

text \<open>\<^verbatim>\<open>#xWriteJournal\<close>. At an entry boundary the page number is read through a
  \<^verbatim>\<open>DataView\<close> on the memory behind \<open>pData\<close>; a write of fewer than four bytes would
  read the bytes that follow the buffer, which the model does not hold.\<close>

definition xWriteJournal :: "vfs \<Rightarrow> ref \<Rightarrow> byte list \<Rightarrow> int \<Rightarrow> error + (int \<times> vfs)" where
  "xWriteJournal st r pData iOffset =
     (let file = heap st r;
          dbPath = getJournalDatabasePath file;
          n = iOffset + int (length pData)
      in if iOffset = 0 then
           (case ta_set (data (block0 file))
                   (subarray pData 0 (int (length (data (block0 file))))) 0 of
              Inl e \<Rightarrow> Inl e
            | Inr hdr \<Rightarrow>
                let st1 = update_file r (set_block0_data hdr) st in
                if hdr \<noteq> [] \<and> hd hdr \<noteq> 0 then
                  (case mapPathToFile st dbPath of
                     None \<Rightarrow> Inl TypeError
                   | Some d \<Rightarrow> extend_fileSize r n (begin_transaction r d st1))
                else extend_fileSize r n st1)
         else
           (case getUint32 (data (block0 file)) 20 of
              Inl e \<Rightarrow> Inl e
            | Inr sectorSize \<Rightarrow>
                (case mapPathToFile st dbPath of
                   None \<Rightarrow> Inl TypeError
                 | Some d \<Rightarrow>
                     let entrySize = int (length (data (block0 (heap st d)))) + 8 in
                     if js_rem (iOffset - sectorSize) entrySize = 0 then
                       (if length pData < 4 then Inl OutsideModel
                        else
                          (case getUint32 pData 0 of
                             Inl e \<Rightarrow> Inl e
                           | Inr pageNumber \<Rightarrow>
                               (case journalPages (heap st d) of
                                  None \<Rightarrow> Inl TypeError
                                | Some jp \<Rightarrow>
                                    let entryIndex = (iOffset - sectorSize) div entrySize;
                                        st1 = update_file d
                                                (\<lambda>f. f\<lparr>journalPages :=
                                                          Some (array_store jp entryIndex
                                                                  (pageNumber - 1))\<rparr>) st
                                    in extend_fileSize r n st1)))
                     else extend_fileSize r n st)))"

subsection \<open>xWrite\<close>

datatype write_path = SlowPath | FastPath

text \<open>Lines 319-325: the check whether the read-modify-write path is needed.\<close>

definition xWrite_path :: "openedFileEntry \<Rightarrow> byte list \<Rightarrow> int \<Rightarrow> write_path option" where
  "xWrite_path file pData iOffset =
     (let blockSize = int (length (data (block0 file))) in
      if iOffset < 0 \<or> blockSize = 0 then None
      else
        (case fileSize (block0 file) of
           None \<Rightarrow> None
         | Some fsz \<Rightarrow>
             let blockIndex = toInt32 (iOffset div blockSize) in
             if iOffset \<noteq> blockIndex * blockSize
                \<or> (iOffset < fsz \<and> int (length pData) \<noteq> blockSize)
             then Some SlowPath else Some FastPath))"

definition xWrite :: "vfs \<Rightarrow> int \<Rightarrow> byte list \<Rightarrow> int \<Rightarrow> error + (int \<times> vfs)" where
  "xWrite st fileId pData iOffset =
     (case mapIdToFile st fileId of
        None \<Rightarrow> Inl TypeError
      | Some r \<Rightarrow>
          let file = heap st r in
          if isJournal file then xWriteJournal st r pData iOffset
          else
            (case xWrite_path file pData iOffset of
               None \<Rightarrow> Inl OutsideModel
             | Some SlowPath \<Rightarrow> xWriteGeneral st r pData iOffset
             | Some FastPath \<Rightarrow>
                 xWrite_fast st r pData iOffset
                   (toInt32 (iOffset div int (length (data (block0 file)))))))"

subsection \<open>xTruncate, xSync, xLock\<close>

definition xTruncate :: "vfs \<Rightarrow> int \<Rightarrow> int \<Rightarrow> error + (int \<times> vfs)" where
  "xTruncate st fileId iSize =
     (case mapIdToFile st fileId of
        None \<Rightarrow> Inl TypeError
      | Some r \<Rightarrow>
          let st1 = update_file r (set_fileSize iSize) st;
              file = heap st1 r;
              copy = block0 file;
              blockSize = int (length (data (block0 file)))
          in if blockSize = 0 then Inl OutsideModel
             else
               let lastBlockIndex = iSize div blockSize in
               Inr (SQLITE_OK,
                    idb_delete (Beyond (path file) lastBlockIndex) (idb_put (Block copy) st1)))"

text \<open>\<^verbatim>\<open>#maybePurge\<close>: the purge itself runs later, from an idle callback; the call only
  marks it as pending.\<close>

definition maybePurge :: "string \<Rightarrow> int \<Rightarrow> vfs \<Rightarrow> vfs" where
  "maybePurge nm nPages st =
     (if opt_purge st = Manual \<or> nm \<in> pendingPurges st \<or> nPages < opt_purgeAtLeast st
      then st
      else st\<lparr>pendingPurges := insert nm (pendingPurges st)\<rparr>)"

text \<open>Lines 517-521: every journalled page that was also written is mapped to the
  version of block 0.\<close>

definition mark_purge :: "int set \<Rightarrow> int \<Rightarrow> int option \<Rightarrow> (int \<times> int) list \<Rightarrow> (int \<times> int) list" where
  "mark_purge changed v pageIndex m =
     (case pageIndex of
        None \<Rightarrow> m
      | Some i \<Rightarrow> if i \<in> changed then AList.update i v m else m)"

text \<open>Lines 503-524: the update of the purge record inside the transaction of \<^verbatim>\<open>xSync\<close>.\<close>

definition update_purge :: "openedFileEntry \<Rightarrow> vfs \<Rightarrow> error + vfs" where
  "update_purge file st =
     (case changedPages file of
        None \<Rightarrow> Inr st
      | Some changed \<Rightarrow>
          let purgeData = (case purge_get (blocks st) (path file) of
                             Some m \<Rightarrow> m | None \<Rightarrow> [])
          in case journalPages file of
               None \<Rightarrow> Inl TypeError
             | Some jp \<Rightarrow>
                 let m = fold (mark_purge changed (version (block0 file))) jp purgeData
                 in Inr (maybePurge (path file) (int (length m))
                           (idb_put (PurgeRec (path file) 0 m) st)))"

definition xSync :: "vfs \<Rightarrow> int \<Rightarrow> int \<Rightarrow> error + (int \<times> vfs)" where
  "xSync st fileId syncFlags =
     (case mapIdToFile st fileId of
        None \<Rightarrow> Inl TypeError
      | Some r \<Rightarrow>
          let file = heap st r in
          if \<not> isJournal file then
            (case update_purge file (idb_put (Block (block0 file)) st) of
               Inl e \<Rightarrow> Inl e
             | Inr st' \<Rightarrow>
                 Inr (SQLITE_OK, if opt_durability st \<noteq> Relaxed then idb_sync st' else st'))
          else Inr (SQLITE_OK, st))"


subsection \<open>Notions of the specification\<close>

text \<open>The published version of a file is the version of the newest block 0 in the store,
  the record that \<^verbatim>\<open>xOpen\<close> loads (lines 93-97).\<close>

definition published :: "kvrec list \<Rightarrow> string \<Rightarrow> int option" where
  "published kvs p = map_option version (blocks_get kvs p 0 AnyVersion)"

text \<open>The positions \<open>pageSize - 200, pageSize - 400, \<dots>\<close> that are greater than 0, and
  the checksum as the specification words it: the nonce plus the unsigned bytes at these
  positions.\<close>

definition checksum_positions :: "int \<Rightarrow> int list" where
  "checksum_positions pageSize =
     map (\<lambda>k. pageSize - 200 * (int k + 1)) [0 ..< nat ((pageSize - 1) div 200)]"

definition spec_checksum :: "byte list \<Rightarrow> int \<Rightarrow> int \<Rightarrow> int" where
  "spec_checksum d nonce pageSize =
     nonce + sum_list (map (\<lambda>x. uint (d ! nat x)) (checksum_positions pageSize))"

text \<open>The page indices recorded in \<open>journalPages\<close>; a hole of the array holds none.\<close>

definition journalled :: "int option list \<Rightarrow> int set" where
  "journalled jp = Option.these (set jp)"

subsection \<open>Example states\<close>

text \<open>Nothing is open and the store is empty.\<close>

definition vfs_empty :: vfs where
  "vfs_empty =
     \<lparr>opt_durability = Default, opt_purge = Deferred, opt_purgeAtLeast = 16,
      mapIdToFile = Map.empty, mapPathToFile = Map.empty,
      heap = (\<lambda>_. \<lparr>path = [], flags = 0,
                     block0 = \<lparr>name = [], index = 0, version = 0, data = [],
                               fileSize = None\<rparr>,
                     journalPages = None, changedPages = None,
                     cachedPageIndex = None, cachedPageEntry = None\<rparr>),
      blocks = [], idb_log = [], pendingPurges = {},
      this_cachedPageIndex = None, this_cachedPageEntry = None\<rparr>"

text \<open>The entry and the block 0 that \<^verbatim>\<open>xOpen\<close> creates for a new file.\<close>

definition new_block0 :: "string \<Rightarrow> fileBlock" where
  "new_block0 p =
     \<lparr>name = p, index = 0, version = 0, data = replicate BLOCK_SIZE 0, fileSize = Some 0\<rparr>"

definition new_entry :: "string \<Rightarrow> int \<Rightarrow> openedFileEntry" where
  "new_entry p fl =
     \<lparr>path = p, flags = fl, block0 = new_block0 p,
      journalPages = None, changedPages = None,
      cachedPageIndex = None, cachedPageEntry = None\<rparr>"

text \<open>The database \<^verbatim>\<open>/db\<close> has been created and is open as file 1 (flags: main
  database, create, read-write).\<close>

definition vfs_db :: vfs where
  "vfs_db =
     vfs_empty\<lparr>mapIdToFile := [1 \<mapsto> 0], mapPathToFile := [''/db'' \<mapsto> 0],
               heap := (heap vfs_empty)(0 := new_entry ''/db'' 262),
               blocks := [Block (new_block0 ''/db'')],
               idb_log := [Put (Block (new_block0 ''/db'')), Sync]\<rparr>"

text \<open>Its rollback journal \<^verbatim>\<open>/db-journal\<close> is open as file 2 (flags: main journal,
  create, read-write).\<close>

definition vfs_journal :: vfs where
  "vfs_journal =
     vfs_db\<lparr>mapIdToFile := [1 \<mapsto> 0, 2 \<mapsto> 1],
            mapPathToFile := [''/db'' \<mapsto> 0, ''/db-journal'' \<mapsto> 1],
            heap := (heap vfs_db)(1 := new_entry ''/db-journal'' 2054)\<rparr>"

text \<open>The payload of the purge record of a file, empty when there is none (line 507).\<close>

definition purge_data :: "kvrec list \<Rightarrow> string \<Rightarrow> (int \<times> int) list" where
  "purge_data kvs p = (case purge_get kvs p of Some m \<Rightarrow> m | None \<Rightarrow> [])"

text \<open>Lines 527-529: the sync is awaited unless the durability is relaxed.\<close>

definition sync_if :: "vfs \<Rightarrow> vfs \<Rightarrow> vfs" where
  "sync_if st st' = (if opt_durability st \<noteq> Relaxed then idb_sync st' else st')"

text \<open>The database is inside a journalled transaction: the journal header has been
  written (version \<open>-1\<close>), pages 0 and 1 are journalled, pages 0, 1 and 2 are written.\<close>

definition vfs_txn :: vfs where
  "vfs_txn =
     vfs_journal\<lparr>heap := (heap vfs_journal)
       (0 := (new_entry ''/db'' 262)
               \<lparr>block0 := (new_block0 ''/db'')\<lparr>version := - 1, fileSize := Some 12288\<rparr>,
                journalPages := Some [Some 0, Some 1],
                changedPages := Some {0, 1, 2}\<rparr>)\<rparr>"



text \<open>The database holds ten bytes; block 0 is cached and stored.\<close>

definition small_block0 :: fileBlock where
  "small_block0 =
     \<lparr>name = ''/db'', index = 0, version = 0,
      data = [1, 2, 3, 4, 5, 6, 7, 8, 9, 10] @ replicate 4086 0, fileSize = Some 10\<rparr>"

definition vfs_small :: vfs where
  "vfs_small =
     vfs_db\<lparr>heap := (heap vfs_db)(0 := (new_entry ''/db'' 262)\<lparr>block0 := small_block0\<rparr>),
            blocks := [Block small_block0]\<rparr>"

text \<open>The cached \<open>fileSize\<close> of the new database is one block.\<close>

definition vfs_page :: vfs where
  "vfs_page = update_file 0 (set_fileSize 4096) vfs_db"

text \<open>The record that the fast path of \<^verbatim>\<open>xWrite\<close> builds for a write of at most one
  block: the written bytes, padded with zeros to the block size.\<close>

definition written_block :: "openedFileEntry \<Rightarrow> int \<Rightarrow> byte list \<Rightarrow> fileBlock" where
  "written_block file blockIndex pData =
     \<lparr>name = name (block0 file), index = blockIndex, version = version (block0 file),
      data = pData @ replicate (length (data (block0 file)) - length pData) 0,
      fileSize = None\<rparr>"

text \<open>What the caller of a read sees: the status and the buffer, or the exception.\<close>

definition read_result ::
  "error + (int \<times> vfs \<times> byte list) \<Rightarrow> error + (int \<times> byte list)" where
  "read_result res = (case res of Inl e \<Rightarrow> Inl e | Inr (rc, st, buf) \<Rightarrow> Inr (rc, buf))"

text \<open>The blocks of a file that are strictly older than version \<open>v\<close>.\<close>

definition pre_transaction :: "kvrec list \<Rightarrow> string \<Rightarrow> int \<Rightarrow> fileBlock list" where
  "pre_transaction kvs p v =
     filter (\<lambda>b. name b = p \<and> v < version b) (List.map_filter block_of kvs)"

text \<open>What a journal file consists of for a reader: the path of its database, the
  in-memory header, the page indices recorded by the writes, the in-memory version and
  the block size of the database, and the blocks of the database older than that
  version.\<close>

definition journal_view ::
  "vfs \<Rightarrow> ref \<Rightarrow> ref \<Rightarrow>
   string \<times> byte list \<times> int option list option \<times> int \<times> nat \<times> fileBlock list" where
  "journal_view st r d =
     (getJournalDatabasePath (heap st r),
      data (block0 (heap st r)),
      journalPages (heap st d),
      version (block0 (heap st d)),
      length (data (block0 (heap st d))),
      pre_transaction (blocks st) (getJournalDatabasePath (heap st r))
        (version (block0 (heap st d))))"

text \<open>A journal header: a non-zero first byte, the nonce 7 at offset 12, the sector
  size 512 at offset 20.\<close>

definition journal_header :: "byte list" where
  "journal_header =
     [217] @ replicate 11 0 @ [0, 0, 0, 7] @ replicate 4 0 @ [0, 0, 2, 0] @ replicate 4072 0"

text \<open>A transaction under way: the header is written, page 1 is journalled and has
  been rewritten at version \<open>-1\<close>.\<close>

definition vfs_rollback :: vfs where
  "vfs_rollback =
     vfs_journal\<lparr>heap := (heap vfs_journal)
       (0 := (new_entry ''/db'' 262)
               \<lparr>block0 := (new_block0 ''/db'')\<lparr>version := - 1, fileSize := Some 12288\<rparr>,
                journalPages := Some [Some 1], changedPages := Some {1}\<rparr>,
        1 := (new_entry ''/db-journal'' 2054)
               \<lparr>block0 := (new_block0 ''/db-journal'')
                             \<lparr>data := journal_header, fileSize := Some 512\<rparr>,
                cachedPageIndex := Some (- 1)\<rparr>),
       blocks := [Block ((new_block0 ''/db'')\<lparr>fileSize := Some 12288\<rparr>),
                  Block \<lparr>name = ''/db'', index = 1, version = 0,
                         data = replicate 4096 5, fileSize = None\<rparr>,
                  Block \<lparr>name = ''/db'', index = 2, version = 0,
                         data = replicate 4096 6, fileSize = None\<rparr>,
                  Block \<lparr>name = ''/db'', index = 1, version = - 1,
                         data = replicate 4096 8, fileSize = None\<rparr>]\<rparr>"

text \<open>The state after the journal entry 0 has been written again, for page 2.\<close>

definition vfs_rewritten :: vfs where
  "vfs_rewritten =
     update_file 1 (set_fileSize 516)
       (update_file 0 (\<lambda>f. f\<lparr>journalPages := Some [Some 2]\<rparr>) vfs_rollback)"

text \<open>The same transaction with other blocks of the current version in the store.\<close>

definition vfs_rollback_other :: vfs where
  "vfs_rollback_other =
     vfs_rollback\<lparr>blocks :=
       [Block \<lparr>name = ''/db'', index = 1, version = - 1,
               data = replicate 4096 99, fileSize = None\<rparr>,
        Block \<lparr>name = ''/db'', index = 2, version = - 1,
               data = replicate 4096 98, fileSize = None\<rparr>,
        Block ((new_block0 ''/db'')\<lparr>fileSize := Some 12288\<rparr>),
        Block \<lparr>name = ''/db'', index = 1, version = 0,
               data = replicate 4096 5, fileSize = None\<rparr>,
        Block \<lparr>name = ''/db'', index = 2, version = 0,
               data = replicate 4096 6, fileSize = None\<rparr>]\<rparr>"

section \<open>Properties\<close>

subsection \<open>Closing a file that is not open\<close>

lemma mapIdToFile_xClose: "mapIdToFile (snd (xClose st fileId)) fileId = None"
  by (simp add: xClose_def idb_delete_def Let_def split: option.splits)

text \<open>
  Claim C10. For a \<open>fileId\<close> without an opened-file entry, \<open>xClose\<close> returns
  \<open>SQLITE_OK\<close> and leaves the whole state (the in-memory maps, the entries and the
  records of the store) as it was. After any \<open>xClose\<close> the \<open>fileId\<close> has no entry, so
  a second \<open>xClose\<close> with the same \<open>fileId\<close> returns \<open>SQLITE_OK\<close> and changes nothing.
\<close>

theorem xClose_not_open:
  "(mapIdToFile st fileId = None \<longrightarrow> xClose st fileId = (SQLITE_OK, st))
   \<and> xClose (snd (xClose st fileId)) fileId = (SQLITE_OK, snd (xClose st fileId))"
proof
  show "mapIdToFile st fileId = None \<longrightarrow> xClose st fileId = (SQLITE_OK, st)"
    by (simp add: xClose_def)
next
  have "mapIdToFile (snd (xClose st fileId)) fileId = None"
    by (rule mapIdToFile_xClose)
  then show "xClose (snd (xClose st fileId)) fileId = (SQLITE_OK, snd (xClose st fileId))"
    by (simp add: xClose_def)
qed

theorem xClose_not_open_witness:
  "mapIdToFile vfs_db 7 = None \<and> xClose vfs_db 7 = (SQLITE_OK, vfs_db)
   \<and> xClose (snd (xClose vfs_db 1)) 1 = (SQLITE_OK, snd (xClose vfs_db 1))"
  using xClose_not_open [of vfs_db 7] xClose_not_open [of vfs_db 1]
  by (simp add: vfs_db_def vfs_empty_def)

subsection \<open>The checksum of a rebuilt journal page entry\<close>

lemma byte_unsigned:
  "(let v = sint (w :: byte) in if v \<ge> 0 then v else v + 256) = uint w"
proof -
  have b: "0 \<le> uint w" "uint w < 256" using uint_lt2p [of w] by simp_all
  have s: "sint w = (uint w + 128) mod 256 - 128"
    by (simp add: sint_uint signed_take_bit_eq_take_bit_shift take_bit_eq_mod)
  show ?thesis
  proof (cases "uint w < 128")
    case True
    then have "sint w = uint w" using b s by simp
    then show ?thesis using b by simp
  next
    case False
    then have "(uint w + 128) mod 256 = uint w - 128"
      using b by (simp add: mod_pos_geq)  
    then have "sint w = uint w - 256" using s by simp
    then show ?thesis using b by simp
  qed
qed

lemma be32: "(n div 16777216) mod 256 * 16777216 + (n div 65536) mod 256 * 65536 + (n div 256) mod 256 * 256 + n mod 256 = (n::int) mod 4294967296"
proof -
  define a where "a = n div 256"
  define b where "b = a div 256"
  define c where "c = b div 256"
  have 1: "n mod 4294967296 = 256 * (a mod 16777216) + n mod 256"
    using zmod_zmult2_eq [of 16777216 n 256] by (simp add: a_def)
  have 2: "a mod 16777216 = 256 * (b mod 65536) + a mod 256"
    using zmod_zmult2_eq [of 65536 a 256] by (simp add: b_def)
  have 3: "b mod 65536 = 256 * (c mod 256) + b mod 256"
    using zmod_zmult2_eq [of 256 b 256] by (simp add: c_def)
  have 4: "n div 65536 = b"
    using zdiv_zmult2_eq [of 256 n 256] by (simp add: a_def b_def)
  have 5: "n div 16777216 = c"
    using zdiv_zmult2_eq [of 256 a 256] zdiv_zmult2_eq [of 65536 n 256]
    by (simp add: a_def b_def c_def)
  have "c mod 256 * 16777216 + b mod 256 * 65536 + a mod 256 * 256 + n mod 256
        = n mod 4294967296"
    by (simp only: 1 2 3 distrib_left mult.assoc [symmetric])
  then show ?thesis by (simp only: 4 5 a_def [symmetric])
qed

lemma getUint32_bytes:
  "off + 4 \<le> length xs \<Longrightarrow>
   getUint32 (take off xs @ uint32_bytes (Some n) @ drop (off + 4) xs) off = Inr (n mod 4294967296)"
proof -
  assume a: "off + 4 \<le> length xs"
  define ys where "ys = uint32_bytes (Some n) @ drop (off + 4) xs"
  have l: "length (take off xs) = off" using a by simp
  have nth: "(take off xs @ ys) ! (off + i) = ys ! i" for i
    using nth_append_length_plus [of "take off xs" ys i] l by simp
  have y: "ys ! 0 = word_of_int (n div 16777216)" "ys ! 1 = word_of_int (n div 65536)"
          "ys ! 2 = word_of_int (n div 256)" "ys ! 3 = word_of_int n"
    by (simp_all add: ys_def uint32_bytes_def)
  have u: "uint (word_of_int k :: byte) = k mod 256" for k
    by (simp add: uint_word_of_int)
  have len: "length (take off xs @ ys) = length xs"
    using a by (simp add: ys_def uint32_bytes_def)
  have "getUint32 (take off xs @ ys) off =
          Inr ((n div 16777216) mod 256 * 16777216 + (n div 65536) mod 256 * 65536
               + (n div 256) mod 256 * 256 + n mod 256)"
    unfolding getUint32_def len using a nth [of 0] nth [of 1] nth [of 2] nth [of 3]
    by (simp only: y u add_0_right) simp
  then show ?thesis unfolding ys_def by (simp only: be32)
qed

lemma checksum_loop_sum:
  "result = Some s \<Longrightarrow> x < int (length d) \<Longrightarrow>
   checksum_loop d result x =
     Some (s + sum_list (map (\<lambda>y. uint (d ! nat y))
                          (map (\<lambda>k. x - 200 * int k) [0 ..< nat ((x + 199) div 200)])))"
proof (induction d result x arbitrary: s rule: checksum_loop.induct)
  case (1 d result x)
  show ?case
  proof (cases "x > 0")
    case False
    then have "(x + 199) div 200 \<le> 0" by simp
    then show ?thesis using False 1(2) by simp
  next
    case True
    have n: "nat ((x + 199) div 200) = Suc (nat ((x - 200 + 199) div 200))"
      using True by simp
    have r: "(case result of None \<Rightarrow> None
           | Some s \<Rightarrow> if nat x < length d
               then (let v = sint (d ! nat x) in Some (s + (if v \<ge> 0 then v else v + 256)))
               else None) = Some (s + uint (d ! nat x))"
      using 1(2,3) True byte_unsigned [of "d ! nat x"] by (simp add: Let_def)
    have "checksum_loop d result x = checksum_loop d (Some (s + uint (d ! nat x))) (x - 200)"
      using True r by (subst checksum_loop.simps) simp
    also have "\<dots> = Some (s + uint (d ! nat x) + sum_list (map (\<lambda>y. uint (d ! nat y))
                          (map (\<lambda>k. x - 200 - 200 * int k) [0 ..< nat ((x - 200 + 199) div 200)])))"
      using "1.IH" [OF True r] 1(3) r by simp
    also have "\<dots> = Some (s + sum_list (map (\<lambda>y. uint (d ! nat y))
                          (map (\<lambda>k. x - 200 * int k) [0 ..< nat ((x + 199) div 200)])))"
      unfolding n by (simp add: upt_conv_Cons map_Suc_upt [symmetric] o_def diff_diff_eq del: upt_Suc)
    finally show ?thesis .
  qed
qed


lemma length_uint32_bytes: "length (uint32_bytes v) = 4"
  by (simp add: uint32_bytes_def split: option.splits)

lemma checksum_positions_sum:
  "pageSize - 200 < int (length d) \<Longrightarrow>
   checksum d nonce pageSize = Some (spec_checksum d nonce pageSize)"
proof -
  assume a: "pageSize - 200 < int (length d)"
  have p: "checksum_positions pageSize =
           map (\<lambda>k. pageSize - 200 - 200 * int k) [0 ..< nat ((pageSize - 200 + 199) div 200)]"
    by (simp add: checksum_positions_def algebra_simps)
  show ?thesis
    unfolding checksum_def spec_checksum_def p
    by (rule checksum_loop_sum [OF refl a])
qed

text \<open>
  Claim C7. For a page of the database whose bytes cover the positions read (the block
  holds more than \<open>pageSize - 200\<close> bytes) and that fits into the entry, \<^verbatim>\<open>#checksum\<close>
  returns the nonce plus the sum of the unsigned bytes at the positions
  \<open>pageSize - 200, pageSize - 400, \<dots>\<close> that are greater than 0, and the last four bytes
  of the rebuilt journal page entry hold the low 32 bits of that number.
\<close>

theorem journal_entry_checksum:
  assumes "pageSize - 200 < int (length d)" and "int (length d) \<le> pageSize + 4"
  shows "checksum d nonce pageSize = Some (spec_checksum d nonce pageSize)
         \<and> (\<exists>e. build_page_entry pageIndex d nonce pageSize (pageSize + 8) = Inr e
                 \<and> getUint32 e (nat (pageSize + 4))
                     = Inr (spec_checksum d nonce pageSize mod 4294967296))"
proof -
  have c: "checksum d nonce pageSize = Some (spec_checksum d nonce pageSize)"
    using assms(1) by (rule checksum_positions_sum)
  define e1 where "e1 = take 0 (replicate (nat (pageSize + 8)) (0::byte))
                        @ uint32_bytes (Some (pageIndex + 1))
                        @ drop (0 + 4) (replicate (nat (pageSize + 8)) 0)"
  define e2 where "e2 = take 4 e1 @ d @ drop (4 + length d) e1"
  have l1: "length e1 = nat (pageSize + 8)"
    using assms(2) by (simp add: e1_def length_uint32_bytes)
  have l2: "length e2 = nat (pageSize + 8)"
    using assms(2) l1 by (simp add: e2_def)
  have s1: "setUint32 (replicate (nat (pageSize + 8)) 0) 0 (Some (pageIndex + 1)) = Inr e1"
    using assms(2) by (simp add: setUint32_def e1_def)
  have s2: "ta_set e1 d 4 = Inr e2"
    using assms(2) l1 by (simp add: ta_set_def e2_def)
  have k: "nat (pageSize + 8 - 4) = nat (pageSize + 4)" "nat (pageSize + 4) + 4 \<le> length e2"
    using assms(2) l2 by simp_all
  define e3 where "e3 = take (nat (pageSize + 4)) e2
                        @ uint32_bytes (Some (spec_checksum d nonce pageSize))
                        @ drop (nat (pageSize + 4) + 4) e2"
  have s3: "setUint32 e2 (nat (pageSize + 4)) (Some (spec_checksum d nonce pageSize)) = Inr e3"
    using k(2) by (simp add: setUint32_def e3_def)
  have b: "build_page_entry pageIndex d nonce pageSize (pageSize + 8) = Inr e3"
    by (simp only: build_page_entry_def s1 s2 k(1) c s3 sum.case)
  have g: "getUint32 e3 (nat (pageSize + 4))
             = Inr (spec_checksum d nonce pageSize mod 4294967296)"
    unfolding e3_def by (rule getUint32_bytes [OF k(2)])
  show ?thesis using c b g by blast
qed

theorem journal_entry_checksum_witness:
  "(4096::int) - 200 < int (length (replicate 4096 (1::byte)))
   \<and> int (length (replicate 4096 (1::byte))) \<le> 4096 + 4
   \<and> checksum (replicate 4096 1) 7 4096 = Some 27
   \<and> (\<exists>e. build_page_entry 2 (replicate 4096 1) 7 4096 4104 = Inr e
           \<and> getUint32 e 4100 = Inr 27)"
proof -
  have s: "spec_checksum (replicate 4096 1) 7 4096 = 27"
    by (simp add: spec_checksum_def checksum_positions_def upt_rec [of _ "numeral n" for n])
  show ?thesis
    using journal_entry_checksum [of 4096 "replicate 4096 1" 7 2] by (simp add: s)
qed

subsection \<open>xSync on a database file\<close>

lemma purge_get_append_block:
  "purge_get (kvs @ [Block b]) p = purge_get kvs p"
  by (induction kvs p rule: purge_get.induct) simp_all

lemma purge_get_filter_block:
  "purge_get (filter (\<lambda>x. rec_key x \<noteq> (n, Some i, v)) kvs) p = purge_get kvs p"
proof (induction kvs)
  case Nil
  then show ?case by simp
next
  case (Cons x kvs)
  then show ?case by (cases x) auto
qed

lemma purge_get_put_block:
  "purge_get (blocks (idb_put (Block b) st)) p = purge_get (blocks st) p"
  by (simp add: idb_put_def purge_get_append_block purge_get_filter_block)

lemma purge_get_put_purge:
  "purge_get (filter (\<lambda>x. rec_key x \<noteq> (p, None, 0)) kvs @ [PurgeRec p 0 m]) p = Some m"
proof (induction kvs)
  case Nil
  then show ?case by simp
next
  case (Cons x kvs)
  then show ?case by (cases x) auto
qed

lemma map_of_mark_purge:
  "map_of (fold (mark_purge changed v) jp m) i =
     (if i \<in> journalled jp \<inter> changed then Some v else map_of m i)"
proof (induction jp arbitrary: m)
  case Nil
  then show ?case by (simp add: journalled_def)
next
  case (Cons x jp)
  show ?case
  proof (cases x)
    case None
    then show ?thesis using Cons [of m] by (simp add: mark_purge_def journalled_def in_these_eq)
  next
    case (Some j)
    then show ?thesis using Cons [of "mark_purge changed v (Some j) m"]
      by (auto simp: mark_purge_def journalled_def in_these_eq update_conv')
  qed
qed

lemma blocks_maybePurge: "blocks (maybePurge p n st) = blocks st"
  by (simp add: maybePurge_def)

lemma idb_log_maybePurge: "idb_log (maybePurge p n st) = idb_log st"
  by (simp add: maybePurge_def)

lemma xSync_no_transaction:
  assumes "mapIdToFile st fileId = Some r" and "\<not> isJournal (heap st r)"
    and "changedPages (heap st r) = None"
  shows "xSync st fileId fl =
           Inr (SQLITE_OK, sync_if st (idb_put (Block (block0 (heap st r))) st))"
  using assms by (simp add: xSync_def update_purge_def sync_if_def)

lemma xSync_transaction:
  assumes "mapIdToFile st fileId = Some r" and "\<not> isJournal (heap st r)"
    and "changedPages (heap st r) = Some changed" and "journalPages (heap st r) = Some jp"
  shows "xSync st fileId fl =
           Inr (SQLITE_OK,
                sync_if st
                  (maybePurge (path (heap st r))
                     (int (length (fold (mark_purge changed (version (block0 (heap st r)))) jp
                                     (purge_data (blocks st) (path (heap st r))))))
                     (idb_put (PurgeRec (path (heap st r)) 0
                                 (fold (mark_purge changed (version (block0 (heap st r)))) jp
                                    (purge_data (blocks st) (path (heap st r)))))
                        (idb_put (Block (block0 (heap st r))) st))))"
  using assms
  by (simp add: xSync_def update_purge_def sync_if_def purge_data_def purge_get_put_block Let_def)


lemma blocks_sync_if: "blocks (sync_if st st') = blocks st'"
  by (simp add: sync_if_def idb_sync_def)

lemma idb_log_sync_if:
  "idb_log (sync_if st st') = idb_log st' @ (if opt_durability st \<noteq> Relaxed then [Sync] else [])"
  by (simp add: sync_if_def idb_sync_def)

lemma blocks_idb_put:
  "blocks (idb_put x st) = filter (\<lambda>y. rec_key y \<noteq> rec_key x) (blocks st) @ [x]"
  by (simp add: idb_put_def)

lemma idb_log_idb_put: "idb_log (idb_put x st) = idb_log st @ [Put x]"
  by (simp add: idb_put_def)

text \<open>
  Claim C1. \<open>xSync\<close> on an open database file returns \<open>SQLITE_OK\<close> and
  (a) puts the cached block 0 into the store;
  (b) when \<open>changedPages\<close> is set, leaves a purge record for the file that maps every page
  index in the intersection of \<open>journalPages\<close> and \<open>changedPages\<close> to the version of the
  block 0 just put, and every other index to what the record held before (nothing, when
  the record is created);
  (c) issues the awaited sync exactly when the durability is not relaxed.
  The fields \<open>journalPages\<close> and \<open>changedPages\<close> are set together by the journal.
\<close>

theorem xSync_database_file:
  assumes "mapIdToFile st fileId = Some r" and "\<not> isJournal (heap st r)"
    and "changedPages (heap st r) \<noteq> None \<longrightarrow> journalPages (heap st r) \<noteq> None"
  shows "\<exists>st'. xSync st fileId fl = Inr (SQLITE_OK, st')
           \<and> Block (block0 (heap st r)) \<in> set (blocks st')
           \<and> (\<exists>ops. idb_log st' = idb_log st @ Put (Block (block0 (heap st r))) # ops
                  \<and> (Sync \<in> set ops \<longleftrightarrow> opt_durability st \<noteq> Relaxed))
           \<and> (\<forall>changed jp.
                 changedPages (heap st r) = Some changed \<and> journalPages (heap st r) = Some jp \<longrightarrow>
                 (\<exists>m. purge_get (blocks st') (path (heap st r)) = Some m
                    \<and> (\<forall>i. map_of m i =
                           (if i \<in> journalled jp \<inter> changed
                            then Some (version (block0 (heap st r)))
                            else map_of (purge_data (blocks st) (path (heap st r))) i))))"
proof (cases "changedPages (heap st r)")
  case None
  let ?b = "Block (block0 (heap st r))"
  let ?st' = "sync_if st (idb_put ?b st)"
  let ?ops = "if opt_durability st \<noteq> Relaxed then [Sync] else []"
  have x: "xSync st fileId fl = Inr (SQLITE_OK, ?st')"
    using assms(1,2) None by (rule xSync_no_transaction)
  have mem: "?b \<in> set (blocks ?st')"
    by (simp add: blocks_sync_if blocks_idb_put)
  have log: "idb_log ?st' = idb_log st @ Put ?b # ?ops"
    by (simp add: idb_log_sync_if idb_log_idb_put)
  have sync: "Sync \<in> set ?ops \<longleftrightarrow> opt_durability st \<noteq> Relaxed"
    by simp
  show ?thesis
  proof (rule exI [of _ ?st'], intro conjI)
    show "xSync st fileId fl = Inr (SQLITE_OK, ?st')" by (rule x)
    show "?b \<in> set (blocks ?st')" by (rule mem)
    show "\<exists>ops. idb_log ?st' = idb_log st @ Put ?b # ops
            \<and> (Sync \<in> set ops \<longleftrightarrow> opt_durability st \<noteq> Relaxed)"
      using log sync by (intro exI [of _ ?ops] conjI)
  qed (simp add: None)
next
  case (Some changed)
  then obtain jp where jp: "journalPages (heap st r) = Some jp"
    using assms(3) by auto
  let ?p = "path (heap st r)" and ?b = "Block (block0 (heap st r))"
  let ?m = "fold (mark_purge changed (version (block0 (heap st r)))) jp (purge_data (blocks st) ?p)"
  let ?st' = "sync_if st (maybePurge ?p (int (length ?m))
                (idb_put (PurgeRec ?p 0 ?m) (idb_put ?b st)))"
  have x: "xSync st fileId fl = Inr (SQLITE_OK, ?st')"
    using assms(1,2) Some jp by (rule xSync_transaction)
  have b: "blocks ?st' = filter (\<lambda>y. rec_key y \<noteq> (?p, None, 0))
                           (filter (\<lambda>y. rec_key y \<noteq> rec_key ?b) (blocks st) @ [?b])
                         @ [PurgeRec ?p 0 ?m]"
    by (simp add: blocks_sync_if blocks_maybePurge blocks_idb_put)
  have mem: "?b \<in> set (blocks ?st')"
    unfolding b by simp
  have log: "idb_log ?st' = idb_log st @ Put ?b
               # (Put (PurgeRec ?p 0 ?m) # (if opt_durability st \<noteq> Relaxed then [Sync] else []))"
    by (simp add: idb_log_sync_if idb_log_maybePurge idb_log_idb_put)
  let ?ops = "Put (PurgeRec ?p 0 ?m) # (if opt_durability st \<noteq> Relaxed then [Sync] else [])"
  have sync: "Sync \<in> set ?ops \<longleftrightarrow> opt_durability st \<noteq> Relaxed"
    by simp
  have pg: "purge_get (blocks ?st') ?p = Some ?m"
    unfolding b by (rule purge_get_put_purge)
  have mp: "\<forall>i. map_of ?m i = (if i \<in> journalled jp \<inter> changed
                            then Some (version (block0 (heap st r)))
                            else map_of (purge_data (blocks st) ?p) i)"
    by (simp add: map_of_mark_purge)
  show ?thesis
  proof (rule exI [of _ ?st'], intro conjI)
    show "xSync st fileId fl = Inr (SQLITE_OK, ?st')" by (rule x)
    show "?b \<in> set (blocks ?st')" by (rule mem)
    show "\<exists>ops. idb_log ?st' = idb_log st @ Put ?b # ops
            \<and> (Sync \<in> set ops \<longleftrightarrow> opt_durability st \<noteq> Relaxed)"
      using log sync by (intro exI [of _ ?ops] conjI)
    show "\<forall>changed jp.
            changedPages (heap st r) = Some changed \<and> journalPages (heap st r) = Some jp \<longrightarrow>
            (\<exists>m. purge_get (blocks ?st') ?p = Some m
               \<and> (\<forall>i. map_of m i =
                      (if i \<in> journalled jp \<inter> changed
                       then Some (version (block0 (heap st r)))
                       else map_of (purge_data (blocks st) ?p) i)))"
      using pg mp Some jp by auto
  qed
qed


theorem xSync_database_file_witness:
  "mapIdToFile vfs_txn 1 = Some 0 \<and> \<not> isJournal (heap vfs_txn 0)
   \<and> changedPages (heap vfs_txn 0) = Some {0, 1, 2}
   \<and> journalPages (heap vfs_txn 0) = Some [Some 0, Some 1]
   \<and> (\<exists>st' m. xSync vfs_txn 1 0 = Inr (SQLITE_OK, st')
          \<and> Block (block0 (heap vfs_txn 0)) \<in> set (blocks st')
          \<and> purge_get (blocks st') ''/db'' = Some m
          \<and> map_of m 0 = Some (- 1) \<and> map_of m 1 = Some (- 1) \<and> map_of m 2 = None
          \<and> Sync \<in> set (idb_log st'))"
proof -
  have h: "mapIdToFile vfs_txn 1 = Some 0" "\<not> isJournal (heap vfs_txn 0)"
    "changedPages (heap vfs_txn 0) = Some {0, 1, 2}"
    "journalPages (heap vfs_txn 0) = Some [Some 0, Some 1]"
    "path (heap vfs_txn 0) = ''/db''" "version (block0 (heap vfs_txn 0)) = - 1"
    "opt_durability vfs_txn = Default" "blocks vfs_txn = [Block (new_block0 ''/db'')]"
    by (simp_all add: vfs_txn_def vfs_journal_def vfs_db_def vfs_empty_def new_entry_def
          new_block0_def isJournal_def SQLITE_OPEN_MAIN_JOURNAL_def SQLITE_OPEN_TEMP_JOURNAL_def)
  have h3: "changedPages (heap vfs_txn 0) \<noteq> None \<longrightarrow> journalPages (heap vfs_txn 0) \<noteq> None"
    using h by simp
  from xSync_database_file [OF h(1) h(2) h3, of 0]
  obtain st' ops m where
    s: "xSync vfs_txn 1 0 = Inr (SQLITE_OK, st')"
       "Block (block0 (heap vfs_txn 0)) \<in> set (blocks st')"
       "idb_log st' = idb_log vfs_txn @ Put (Block (block0 (heap vfs_txn 0))) # ops"
       "Sync \<in> set ops \<longleftrightarrow> opt_durability vfs_txn \<noteq> Relaxed"
       "purge_get (blocks st') (path (heap vfs_txn 0)) = Some m"
       "\<forall>i. map_of m i =
          (if i \<in> journalled [Some 0, Some 1] \<inter> {0, 1, 2}
           then Some (version (block0 (heap vfs_txn 0)))
           else map_of (purge_data (blocks vfs_txn) (path (heap vfs_txn 0))) i)"
    using h(3,4) by blast
  have "map_of m 0 = Some (- 1)" "map_of m 1 = Some (- 1)" "map_of m 2 = None"
    using s(6) h(5,6,8) by (simp_all add: journalled_def in_these_eq purge_data_def)
  moreover have "Sync \<in> set (idb_log st')"
    using s(3,4) h(7) by simp
  ultimately show ?thesis using h s by auto
qed

subsection \<open>xTruncate with a size that does not shrink the file\<close>

text \<open>
  Claim C2 as stated fails: truncating the new, empty database to 4096 bytes, a size not
  below its \<open>fileSize\<close> 0, sets the cached \<open>fileSize\<close> to 4096 and issues a put and a
  ranged delete.
\<close>

theorem xTruncate_grow_counterexample:
  "fileSize (block0 (heap vfs_db 0)) = Some 0 \<and> mapIdToFile vfs_db 1 = Some 0
   \<and> xTruncate vfs_db 1 4096 =
       Inr (SQLITE_OK,
            vfs_db\<lparr>heap := (heap vfs_db)(0 := set_fileSize 4096 (new_entry ''/db'' 262)),
                   blocks := [Block ((new_block0 ''/db'')\<lparr>fileSize := Some 4096\<rparr>)],
                   idb_log := [Put (Block (new_block0 ''/db'')), Sync,
                               Put (Block ((new_block0 ''/db'')\<lparr>fileSize := Some 4096\<rparr>)),
                               Delete (Beyond ''/db'' 1)]\<rparr>)"
  by (simp add: xTruncate_def vfs_db_def vfs_empty_def new_entry_def new_block0_def
        update_file_def set_fileSize_def idb_put_def idb_delete_def BLOCK_SIZE_def SQLITE_OK_def)

text \<open>
  Claim C2, amended. For every open file with a non-empty block 0 and every size (also
  one at or above the current \<open>fileSize\<close>), \<open>xTruncate\<close> sets the cached \<open>fileSize\<close> to
  that size, puts the cached block 0 with the new \<open>fileSize\<close>, and issues the ranged
  delete of the blocks of the file whose index exceeds \<open>size div blockSize\<close>. No record
  other than block 0 is created, and afterwards no block of the file lies beyond that
  index.
\<close>

theorem xTruncate_effect:
  assumes "mapIdToFile st fileId = Some r" and "data (block0 (heap st r)) \<noteq> []"
  shows "\<exists>st'. xTruncate st fileId iSize = Inr (SQLITE_OK, st')
           \<and> fileSize (block0 (heap st' r)) = Some iSize
           \<and> idb_log st' = idb_log st
                @ [Put (Block ((block0 (heap st r))\<lparr>fileSize := Some iSize\<rparr>)),
                   Delete (Beyond (path (heap st r))
                             (iSize div int (length (data (block0 (heap st r))))))]
           \<and> set (blocks st') \<subseteq>
                insert (Block ((block0 (heap st r))\<lparr>fileSize := Some iSize\<rparr>)) (set (blocks st))
           \<and> (\<forall>b. Block b \<in> set (blocks st') \<and> name b = path (heap st r) \<longrightarrow>
                  index b \<le> iSize div int (length (data (block0 (heap st r)))))"
  using assms
  by (auto simp: xTruncate_def update_file_def set_fileSize_def idb_put_def idb_delete_def Let_def)


theorem xTruncate_effect_witness:
  "mapIdToFile vfs_db 1 = Some 0 \<and> data (block0 (heap vfs_db 0)) \<noteq> []
   \<and> (\<exists>st'. xTruncate vfs_db 1 4096 = Inr (SQLITE_OK, st')
          \<and> fileSize (block0 (heap st' 0)) = Some 4096
          \<and> idb_log st' = idb_log vfs_db
               @ [Put (Block ((block0 (heap vfs_db 0))\<lparr>fileSize := Some 4096\<rparr>)),
                  Delete (Beyond ''/db'' 1)])"
proof -
  have h: "mapIdToFile vfs_db 1 = Some 0" "data (block0 (heap vfs_db 0)) \<noteq> []"
    "path (heap vfs_db 0) = ''/db''" "length (data (block0 (heap vfs_db 0))) = 4096"
    by (simp_all add: vfs_db_def vfs_empty_def new_entry_def new_block0_def BLOCK_SIZE_def)
  show ?thesis
    using xTruncate_effect [OF h(1) h(2), of 4096] h by auto
qed

subsection \<open>The sweep of xLock at the level RESERVED\<close>




subsection \<open>Writing the journal header\<close>

lemma ta_set_header:
  "ta_set hdr (subarray pData 0 (int (length hdr))) 0
     = Inr (take (length hdr) pData @ drop (min (length pData) (length hdr)) hdr)"
  by (simp add: ta_set_def subarray_def)

lemma hd_header:
  "pData \<noteq> [] \<Longrightarrow> hdr \<noteq> [] \<Longrightarrow>
   hd (take (length hdr) pData @ drop (min (length pData) (length hdr)) hdr) = hd pData"
  by (cases pData; cases hdr) simp_all

text \<open>
  Claim C4 as stated fails: the decrement does not look at the store. In a transaction
  under way the cached version is \<open>-1\<close> against the published version 0; a second write
  of a header with a non-zero first byte makes it \<open>-2\<close>, two less than the published
  version.
\<close>

theorem xWrite_second_header_counterexample:
  "mapIdToFile vfs_rollback 2 = Some 1 \<and> isJournal (heap vfs_rollback 1)
   \<and> mapPathToFile vfs_rollback (getJournalDatabasePath (heap vfs_rollback 1)) = Some 0
   \<and> published (blocks vfs_rollback) ''/db'' = Some 0
   \<and> version (block0 (heap vfs_rollback 0)) = - 1
   \<and> xWrite vfs_rollback 2 [217, 213, 5] 0 =
        Inr (SQLITE_OK,
             vfs_rollback\<lparr>heap := (heap vfs_rollback)
               (0 := (heap vfs_rollback 0)
                       \<lparr>block0 := (block0 (heap vfs_rollback 0))\<lparr>version := - 2\<rparr>,
                        journalPages := Some [], changedPages := Some {}\<rparr>,
                1 := (heap vfs_rollback 1)
                       \<lparr>block0 := (block0 (heap vfs_rollback 1))
                                     \<lparr>data := [217, 213, 5] @ drop 3 journal_header\<rparr>\<rparr>)\<rparr>)"
  apply (intro conjI)
       apply (simp_all add: vfs_rollback_def journal_header_def vfs_journal_def vfs_db_def
        vfs_empty_def new_entry_def new_block0_def BLOCK_SIZE_def isJournal_def
        SQLITE_OPEN_MAIN_JOURNAL_def SQLITE_OPEN_TEMP_JOURNAL_def getJournalDatabasePath_def
        strip_journal_def published_def blocks_get_def List.map_filter_simps xWrite_def
        xWriteJournal_def ta_set_def subarray_def begin_transaction_def extend_fileSize_def
        update_file_def set_block0_data_def set_fileSize_def Let_def)
  done

text \<open>
  Claim C4, amended. A write at offset 0 to a journal file whose database entry \<open>d\<close> is
  open, with a non-zero first byte, copies the bytes into the in-memory journal header and
  leaves on \<open>d\<close>: \<open>journalPages = []\<close>, \<open>changedPages = {}\<close> and a version of block 0
  decremented by one. The store is not touched; when the version of \<open>d\<close> was the
  published one before the write, it is one less than the published version afterwards.
\<close>

theorem xWrite_journal_header:
  assumes "mapIdToFile st fileId = Some r" and "isJournal (heap st r)"
    and "mapPathToFile st (getJournalDatabasePath (heap st r)) = Some d"
    and "pData \<noteq> []" and "hd pData \<noteq> 0"
    and "data (block0 (heap st r)) \<noteq> []" and "fileSize (block0 (heap st r)) \<noteq> None"
  shows "\<exists>st'. xWrite st fileId pData 0 = Inr (SQLITE_OK, st')
           \<and> data (block0 (heap st' r))
               = take (length (data (block0 (heap st r)))) pData
                 @ drop (length pData) (data (block0 (heap st r)))
           \<and> journalPages (heap st' d) = Some []
           \<and> changedPages (heap st' d) = Some {}
           \<and> version (block0 (heap st' d)) = version (block0 (heap st d)) - 1
           \<and> blocks st' = blocks st
           \<and> (published (blocks st) (getJournalDatabasePath (heap st r))
                 = Some (version (block0 (heap st d))) \<longrightarrow>
               published (blocks st') (getJournalDatabasePath (heap st r))
                 = Some (version (block0 (heap st' d)) + 1))"
proof -
  let ?hdr = "data (block0 (heap st r))"
  let ?new = "take (length ?hdr) pData @ drop (min (length pData) (length ?hdr)) ?hdr"
  obtain fsz where fsz: "fileSize (block0 (heap st r)) = Some fsz"
    using assms(7) by auto
  have nz: "?new \<noteq> []" "hd ?new \<noteq> 0"
    using assms(4,5,6) hd_header [of pData ?hdr] by simp_all
  have "xWrite st fileId pData 0 = xWriteJournal st r pData 0"
    using assms(1,2) by (simp add: xWrite_def)
  also have "\<dots> = extend_fileSize r (int (length pData))
                     (begin_transaction r d (update_file r (set_block0_data ?new) st))"
    using assms(3) nz by (simp add: xWriteJournal_def ta_set_header Let_def)
  finally have x: "xWrite st fileId pData 0 = extend_fileSize r (int (length pData))
                     (begin_transaction r d (update_file r (set_block0_data ?new) st))" .
  show ?thesis
    unfolding x using fsz
    by (auto simp: extend_fileSize_def begin_transaction_def update_file_def set_block0_data_def
          set_fileSize_def Let_def min_def)
qed


theorem xWrite_journal_header_witness:
  "mapIdToFile vfs_journal 2 = Some 1 \<and> isJournal (heap vfs_journal 1)
   \<and> mapPathToFile vfs_journal (getJournalDatabasePath (heap vfs_journal 1)) = Some 0
   \<and> [217, 213, 5 :: byte] \<noteq> [] \<and> hd [217, 213, 5 :: byte] \<noteq> 0
   \<and> data (block0 (heap vfs_journal 1)) \<noteq> []
   \<and> fileSize (block0 (heap vfs_journal 1)) \<noteq> None
   \<and> published (blocks vfs_journal) (getJournalDatabasePath (heap vfs_journal 1))
        = Some (version (block0 (heap vfs_journal 0)))
   \<and> (\<exists>st'. xWrite vfs_journal 2 [217, 213, 5] 0 = Inr (SQLITE_OK, st')
          \<and> take 3 (data (block0 (heap st' 1))) = [217, 213, 5]
          \<and> journalPages (heap st' 0) = Some []
          \<and> changedPages (heap st' 0) = Some {}
          \<and> version (block0 (heap st' 0)) = - 1
          \<and> published (blocks st') ''/db'' = Some 0)"
proof -
  have h: "mapIdToFile vfs_journal 2 = Some 1" "isJournal (heap vfs_journal 1)"
    "mapPathToFile vfs_journal (getJournalDatabasePath (heap vfs_journal 1)) = Some 0"
    "[217, 213, 5 :: byte] \<noteq> []" "hd [217, 213, 5 :: byte] \<noteq> 0"
    "data (block0 (heap vfs_journal 1)) \<noteq> []"
    "fileSize (block0 (heap vfs_journal 1)) \<noteq> None"
    by (simp_all add: vfs_journal_def vfs_db_def vfs_empty_def new_entry_def new_block0_def
          isJournal_def SQLITE_OPEN_MAIN_JOURNAL_def SQLITE_OPEN_TEMP_JOURNAL_def
          getJournalDatabasePath_def strip_journal_def BLOCK_SIZE_def)
  have p: "published (blocks vfs_journal) (getJournalDatabasePath (heap vfs_journal 1))
             = Some (version (block0 (heap vfs_journal 0)))"
    "getJournalDatabasePath (heap vfs_journal 1) = ''/db''"
    "version (block0 (heap vfs_journal 0)) = 0"
    "length (data (block0 (heap vfs_journal 1))) = 4096"
    by (simp_all add: vfs_journal_def vfs_db_def vfs_empty_def new_entry_def new_block0_def
          getJournalDatabasePath_def strip_journal_def published_def blocks_get_def
          List.map_filter_simps BLOCK_SIZE_def)
  show ?thesis
    using xWrite_journal_header [OF h] h p by auto
qed

subsection \<open>Reads at and across the end of the file\<close>

text \<open>
  Claim C3, evaluated. (1) A read of four bytes from the new, empty database returns the
  short-read status, but the caller's bytes \<open>1, 2, 3, 4\<close> are still in the buffer:
  \<^verbatim>\<open>fill(0, pData.size)\<close> starts filling at the end of the buffer. (2) A read of 4100
  bytes from the ten-byte database takes \<^verbatim>\<open>#xReadGeneral\<close>, which returns the short-read
  status and leaves the caller's bytes \<open>9\<close> in the 4090 bytes behind the ten bytes read.
  (3) A read of 16 bytes at offset 0 from the ten-byte database stays inside block 0 and
  returns \<open>SQLITE_OK\<close>, not the short-read status.
\<close>

theorem xRead_short_read_evaluated:
  "xRead vfs_db 1 [1, 2, 3, 4] 0 = Inr (SQLITE_IOERR_SHORT_READ, vfs_db, [1, 2, 3, 4])
   \<and> xRead vfs_small 1 (replicate 4100 9) 0
        = Inr (SQLITE_IOERR_SHORT_READ, vfs_small,
               [1, 2, 3, 4, 5, 6, 7, 8, 9, 10] @ replicate 4090 9)
   \<and> xRead vfs_small 1 (replicate 16 9) 0
        = Inr (SQLITE_OK, vfs_small, [1, 2, 3, 4, 5, 6, 7, 8, 9, 10] @ replicate 6 0)"
  apply (intro conjI)
  apply (simp_all add: xRead_def xReadGeneral_def vfs_small_def small_block0_def vfs_db_def
     vfs_empty_def new_entry_def new_block0_def BLOCK_SIZE_def isJournal_def
     SQLITE_OPEN_MAIN_JOURNAL_def SQLITE_OPEN_TEMP_JOURNAL_def toInt32_def ta_fill_def
     blocks_get_def List.map_filter_simps cache_block0_def ta_set_def subarray_def Let_def)
  done

subsection \<open>The dispatch of xWrite\<close>

lemma toInt32_id: "- 2147483648 \<le> x \<Longrightarrow> x < 2147483648 \<Longrightarrow> toInt32 x = x"
  by (simp add: toInt32_def)

lemma div_block_bound:
  assumes "0 < bs" and "0 \<le> a" and "a < 2147483648 * (bs::int)"
  shows "0 \<le> a div bs \<and> a div bs < 2147483648"
proof -
  have "0 \<le> a div bs" using assms(1,2) by (simp add: pos_imp_zdiv_nonneg_iff)
  moreover have "a div bs < 2147483648"
  proof (rule ccontr)
    assume "\<not> a div bs < 2147483648"
    then have "2147483648 \<le> a div bs" by simp
    then have "bs * 2147483648 \<le> bs * (a div bs)"
      using assms(1) by (simp add: mult_left_mono)
    moreover have "bs * (a div bs) \<le> a"
    proof -
      have "bs * (a div bs) + a mod bs = a" by simp
      moreover have "0 \<le> a mod bs" using assms(1) by simp
      ultimately show ?thesis by linarith
    qed
    ultimately show False using assms(3) by simp
  qed
  ultimately show ?thesis by simp
qed

lemma block_index_fast:
  assumes "0 < bs" and "0 \<le> a" and "a < 2147483648 * (bs::int)"
  shows "toInt32 (a div bs) = a div bs"
  using div_block_bound [OF assms] by (simp add: toInt32_id)

lemma misaligned_any_index: "a mod bs \<noteq> 0 \<Longrightarrow> a \<noteq> k * (bs::int)"
  by auto

text \<open>
  Claim C5 as stated fails: with a cached \<open>fileSize\<close> of one block, a write of a single
  byte at offset 4096 is aligned but not a full block, and it takes the fast path: a
  fresh record for block 1 is put. The slow path would have thrown on the missing block 1.
\<close>

theorem xWrite_short_append_counterexample:
  "\<not> isJournal (heap vfs_page 0) \<and> mapIdToFile vfs_page 1 = Some 0
   \<and> fileSize (block0 (heap vfs_page 0)) = Some 4096
   \<and> int (length (data (block0 (heap vfs_page 0)))) = 4096
   \<and> xWrite_path (heap vfs_page 0) [7] 4096 = Some FastPath
   \<and> xWrite vfs_page 1 [7] 4096 =
        Inr (SQLITE_OK,
             update_file 0 (set_fileSize 4097)
               (idb_put (Block \<lparr>name = ''/db'', index = 1, version = 0,
                                data = 7 # replicate 4095 0, fileSize = None\<rparr>) vfs_page))
   \<and> xWriteGeneral vfs_page 0 [7] 4096 = Inl TypeError"
  apply (intro conjI)
  apply (simp_all add: vfs_page_def vfs_db_def vfs_empty_def new_entry_def new_block0_def
     BLOCK_SIZE_def isJournal_def SQLITE_OPEN_MAIN_JOURNAL_def SQLITE_OPEN_TEMP_JOURNAL_def
     update_file_def set_fileSize_def xWrite_path_def toInt32_def xWrite_def xWrite_fast_def fresh_block_def ta_set_def
     idb_put_def add_changed_def xWriteGeneral_def Let_def blocks_get_def List.map_filter_simps subarray_def)
  done

lemma xWrite_path_slow:
  assumes "fileSize (block0 file) = Some fsz"
    and "bs = int (length (data (block0 file)))" and "0 < bs" and "0 \<le> iOffset"
    and "iOffset mod bs \<noteq> 0 \<or> (iOffset < fsz \<and> int (length pData) \<noteq> bs)"
  shows "xWrite_path file pData iOffset = Some SlowPath"
  using assms misaligned_any_index [of iOffset bs]
  by (auto simp: xWrite_path_def Let_def)

lemma xWrite_path_fast:
  assumes "fileSize (block0 file) = Some fsz"
    and "bs = int (length (data (block0 file)))" and "0 < bs" and "0 \<le> iOffset"
    and "iOffset mod bs = 0" and "iOffset < 2147483648 * bs"
    and "fsz \<le> iOffset \<or> int (length pData) = bs"
  shows "xWrite_path file pData iOffset = Some FastPath"
proof -
  have i: "toInt32 (iOffset div bs) = iOffset div bs"
    using assms(3,4,6) by (rule block_index_fast)
  have a: "iOffset = iOffset div bs * bs" using assms(5) by auto
  show ?thesis
    using assms(1,2,3,4,7) i a by (auto simp: xWrite_path_def Let_def)
qed


lemma ta_set_prefix:
  "length pData \<le> length d \<Longrightarrow> ta_set d pData 0 = Inr (pData @ drop (length pData) d)"
  by (simp add: ta_set_def)

lemma xWrite_fast_effect:
  assumes "fileSize (block0 (heap st r)) = Some fsz"
    and "length pData \<le> length (data (block0 (heap st r)))"
  shows "\<exists>st'. xWrite_fast st r pData iOffset blockIndex = Inr (SQLITE_OK, st')
           \<and> fileSize (block0 (heap st' r)) = Some (max fsz (iOffset + int (length pData)))
           \<and> changedPages (heap st' r) = map_option (insert blockIndex) (changedPages (heap st r))
           \<and> (if blockIndex = 0
               then idb_log st' = idb_log st \<and> blocks st' = blocks st
                    \<and> data (block0 (heap st' r))
                        = pData @ drop (length pData) (data (block0 (heap st r)))
               else idb_log st' = idb_log st @ [Put (Block (written_block (heap st r) blockIndex pData))]
                    \<and> blocks st' = filter (\<lambda>x. rec_key x \<noteq> rec_key (Block (written_block (heap st r) blockIndex pData))) (blocks st)
                                    @ [Block (written_block (heap st r) blockIndex pData)])"
  using assms
  by (simp add: xWrite_fast_def update_file_def set_fileSize_def set_block0_data_def
        fresh_block_def add_changed_def idb_put_def written_block_def ta_set_prefix Let_def)

text \<open>
  Claim C5, amended. A write to an open database file goes to the read-modify-write path
  \<^verbatim>\<open>#xWriteGeneral\<close> when it is misaligned or when it starts inside the file with a length
  other than the block size. An aligned write of at most one block that starts at or
  beyond \<open>fileSize\<close> (also when it is shorter than a block), or that is exactly one block
  long, takes the fast path: \<open>fileSize\<close> grows to cover it, the page is added to
  \<open>changedPages\<close> when that is set, and a single fresh record with the written bytes is put;
  for block 0 only the cached block changes and nothing is put.
\<close>

theorem xWrite_dispatch:
  assumes "mapIdToFile st fileId = Some r" and "\<not> isJournal (heap st r)"
    and "fileSize (block0 (heap st r)) = Some fsz"
    and "bs = int (length (data (block0 (heap st r))))" and "0 < bs" and "0 \<le> iOffset"
  shows "(iOffset mod bs \<noteq> 0 \<or> (iOffset < fsz \<and> int (length pData) \<noteq> bs) \<longrightarrow>
            xWrite_path (heap st r) pData iOffset = Some SlowPath
            \<and> xWrite st fileId pData iOffset = xWriteGeneral st r pData iOffset)
       \<and> (iOffset mod bs = 0 \<and> iOffset < 2147483648 * bs
            \<and> (fsz \<le> iOffset \<or> int (length pData) = bs) \<and> int (length pData) \<le> bs \<longrightarrow>
            xWrite_path (heap st r) pData iOffset = Some FastPath
            \<and> (\<exists>st'. xWrite st fileId pData iOffset = Inr (SQLITE_OK, st')
                  \<and> fileSize (block0 (heap st' r)) = Some (max fsz (iOffset + int (length pData)))
                  \<and> changedPages (heap st' r)
                      = map_option (insert (iOffset div bs)) (changedPages (heap st r))
                  \<and> (if iOffset div bs = 0
                      then idb_log st' = idb_log st \<and> blocks st' = blocks st
                           \<and> data (block0 (heap st' r))
                               = pData @ drop (length pData) (data (block0 (heap st r)))
                      else idb_log st' = idb_log st
                             @ [Put (Block (written_block (heap st r) (iOffset div bs) pData))]
                           \<and> blocks st' =
                               filter (\<lambda>x. rec_key x \<noteq> rec_key (Block (written_block (heap st r) (iOffset div bs) pData)))
                                 (blocks st)
                               @ [Block (written_block (heap st r) (iOffset div bs) pData)])))"
proof (intro conjI impI)
  assume c: "iOffset mod bs \<noteq> 0 \<or> (iOffset < fsz \<and> int (length pData) \<noteq> bs)"
  show p: "xWrite_path (heap st r) pData iOffset = Some SlowPath"
    using assms(3,4,5,6) c by (rule xWrite_path_slow)
  show "xWrite st fileId pData iOffset = xWriteGeneral st r pData iOffset"
    using assms(1,2) p by (simp add: xWrite_def)
next
  assume c: "iOffset mod bs = 0 \<and> iOffset < 2147483648 * bs
            \<and> (fsz \<le> iOffset \<or> int (length pData) = bs) \<and> int (length pData) \<le> bs"
  have c1: "iOffset mod bs = 0" and c2: "iOffset < 2147483648 * bs"
    and c3: "fsz \<le> iOffset \<or> int (length pData) = bs"
    using c by simp_all
  show p: "xWrite_path (heap st r) pData iOffset = Some FastPath"
    by (rule xWrite_path_fast [OF assms(3) assms(4) assms(5) assms(6) c1 c2 c3])
  have i: "toInt32 (iOffset div bs) = iOffset div bs"
    by (rule block_index_fast [OF assms(5) assms(6) c2])
  have x: "xWrite st fileId pData iOffset = xWrite_fast st r pData iOffset (iOffset div bs)"
    using assms(1,2,4) p i by (simp add: xWrite_def)
  have l: "length pData \<le> length (data (block0 (heap st r)))"
    using c assms(4) by simp
  show "\<exists>st'. xWrite st fileId pData iOffset = Inr (SQLITE_OK, st')
                  \<and> fileSize (block0 (heap st' r)) = Some (max fsz (iOffset + int (length pData)))
                  \<and> changedPages (heap st' r)
                      = map_option (insert (iOffset div bs)) (changedPages (heap st r))
                  \<and> (if iOffset div bs = 0
                      then idb_log st' = idb_log st \<and> blocks st' = blocks st
                           \<and> data (block0 (heap st' r))
                               = pData @ drop (length pData) (data (block0 (heap st r)))
                      else idb_log st' = idb_log st
                             @ [Put (Block (written_block (heap st r) (iOffset div bs) pData))]
                           \<and> blocks st' =
                               filter (\<lambda>x. rec_key x \<noteq> rec_key (Block (written_block (heap st r) (iOffset div bs) pData)))
                                 (blocks st)
                               @ [Block (written_block (heap st r) (iOffset div bs) pData)])"
    unfolding x by (rule xWrite_fast_effect [OF assms(3) l])
qed


theorem xWrite_dispatch_witness:
  "mapIdToFile vfs_page 1 = Some 0 \<and> \<not> isJournal (heap vfs_page 0)
   \<and> fileSize (block0 (heap vfs_page 0)) = Some 4096
   \<and> (4096::int) = int (length (data (block0 (heap vfs_page 0))))
   \<and> xWrite_path (heap vfs_page 0) [7] 100 = Some SlowPath
   \<and> xWrite vfs_page 1 [7] 100 = xWriteGeneral vfs_page 0 [7] 100
   \<and> xWrite_path (heap vfs_page 0) [7] 4096 = Some FastPath
   \<and> (\<exists>st'. xWrite vfs_page 1 [7] 4096 = Inr (SQLITE_OK, st')
          \<and> fileSize (block0 (heap st' 0)) = Some 4097
          \<and> idb_log st' = idb_log vfs_page
               @ [Put (Block (written_block (heap vfs_page 0) 1 [7]))])"
proof -
  have h: "mapIdToFile vfs_page 1 = Some 0" "\<not> isJournal (heap vfs_page 0)"
    "fileSize (block0 (heap vfs_page 0)) = Some 4096"
    "(4096::int) = int (length (data (block0 (heap vfs_page 0))))" "(0::int) < 4096"
    by (simp_all add: vfs_page_def vfs_db_def vfs_empty_def new_entry_def new_block0_def
          BLOCK_SIZE_def isJournal_def SQLITE_OPEN_MAIN_JOURNAL_def SQLITE_OPEN_TEMP_JOURNAL_def
          update_file_def set_fileSize_def)
  have s: "xWrite_path (heap vfs_page 0) [7] 100 = Some SlowPath
           \<and> xWrite vfs_page 1 [7] 100 = xWriteGeneral vfs_page 0 [7] 100"
    using xWrite_dispatch [OF h, where iOffset = 100 and pData = "[7]"] by simp
  have f: "xWrite_path (heap vfs_page 0) [7] 4096 = Some FastPath
           \<and> (\<exists>st'. xWrite vfs_page 1 [7] 4096 = Inr (SQLITE_OK, st')
          \<and> fileSize (block0 (heap st' 0)) = Some 4097
          \<and> idb_log st' = idb_log vfs_page
               @ [Put (Block (written_block (heap vfs_page 0) 1 [7]))])"
    using xWrite_dispatch [OF h, where iOffset = 4096 and pData = "[7]"] by auto
  show ?thesis using h s f by simp
qed

subsection \<open>Reads and writes of length zero\<close>










subsection \<open>Reads of the journal\<close>

lemma blocks_get_pre_transaction:
  "blocks_get kvs p i (Above v) = newest (filter (\<lambda>b. index b = i) (pre_transaction kvs p v))"
  by (auto simp: blocks_get_def pre_transaction_def intro!: arg_cong [where f = newest] filter_cong)

lemma rebuilt_page_entry_pre_transaction:
  assumes "version b1 = version b2" and "length (data b1) = length (data b2)"
    and "pre_transaction kvs1 p (version b1) = pre_transaction kvs2 p (version b2)"
  shows "rebuilt_page_entry kvs1 hdr p b1 pageIndex = rebuilt_page_entry kvs2 hdr p b2 pageIndex"
  using assms
  by (cases pageIndex)
     (simp_all add: rebuilt_page_entry_def blocks_get_pre_transaction
        cong: option.case_cong sum.case_cong)

lemma array_get_journalled: "array_get jp i = Some x \<Longrightarrow> x \<in> journalled jp"
proof -
  assume a: "array_get jp i = Some x"
  then have "nat i < length jp" and "jp ! nat i = Some x"
    by (auto simp: array_get_def split: if_splits)
  then have "Some x \<in> set jp" using nth_mem [of "nat i" jp] by simp
  then show ?thesis by (simp add: journalled_def in_these_eq)
qed

lemma read_result_Inl [simp]: "read_result (Inl e) = Inl e"
  by (simp add: read_result_def)

lemma read_result_Inr [simp]: "read_result (Inr (rc, st, buf)) = Inr (rc, buf)"
  by (simp add: read_result_def)

text \<open>What a read of the journal returns, told from one state.\<close>

lemma xReadJournal_entry:
  assumes "getUint32 (data (block0 (heap st r))) 20 = Inr sectorSize"
    and "mapPathToFile st (getJournalDatabasePath (heap st r)) = Some d"
    and "0 \<le> iOffset" and "sectorSize \<le> iOffset"
    and "journalPages (heap st d) = Some jp"
    and "cachedPageIndex (heap st r)
           \<noteq> array_get jp (toInt32 ((iOffset - sectorSize)
                                     div (int (length (data (block0 (heap st d)))) + 8)))"
  shows "read_result (xReadJournal st r pData iOffset) =
           (case rebuilt_page_entry (blocks st) (data (block0 (heap st r)))
                   (getJournalDatabasePath (heap st r)) (block0 (heap st d))
                   (array_get jp (toInt32 ((iOffset - sectorSize)
                                     div (int (length (data (block0 (heap st d)))) + 8)))) of
              Inl e \<Rightarrow> Inl e
            | Inr entry \<Rightarrow>
                (case ta_set pData
                        (subarray entry
                           ((iOffset - sectorSize) mod (int (length (data (block0 (heap st d)))) + 8))
                           ((iOffset - sectorSize) mod (int (length (data (block0 (heap st d)))) + 8)
                            + int (length pData))) 0 of
                   Inl e \<Rightarrow> Inl e
                 | Inr buf \<Rightarrow> Inr (SQLITE_OK, buf)))"
  using assms
  by (simp add: xReadJournal_def refresh_page_entry_def Let_def split: sum.splits)

lemma xReadJournal_header:
  assumes "getUint32 (data (block0 (heap st r))) 20 = Inr sectorSize"
    and "mapPathToFile st (getJournalDatabasePath (heap st r)) = Some d"
    and "0 \<le> iOffset" and "iOffset < sectorSize"
  shows "read_result (xReadJournal st r pData iOffset) =
           (case ta_set pData (subarray (data (block0 (heap st r))) iOffset
                                 (iOffset + int (length pData))) 0 of
              Inl e \<Rightarrow> Inl e
            | Inr buf \<Rightarrow> Inr (SQLITE_OK, buf))"
  using assms by (simp add: xReadJournal_def Let_def split: sum.splits)


lemma xReadJournal_failed:
  "getUint32 (data (block0 (heap st r))) 20 = Inl e \<Longrightarrow>
   read_result (xReadJournal st r pData iOffset) = Inl e"
  "getUint32 (data (block0 (heap st r))) 20 = Inr sectorSize \<Longrightarrow>
   mapPathToFile st (getJournalDatabasePath (heap st r)) = Some d \<Longrightarrow> iOffset < 0 \<Longrightarrow>
   read_result (xReadJournal st r pData iOffset) = Inl OutsideModel"
  "getUint32 (data (block0 (heap st r))) 20 = Inr sectorSize \<Longrightarrow>
   mapPathToFile st (getJournalDatabasePath (heap st r)) = Some d \<Longrightarrow>
   0 \<le> iOffset \<Longrightarrow> sectorSize \<le> iOffset \<Longrightarrow> journalPages (heap st d) = None \<Longrightarrow>
   read_result (xReadJournal st r pData iOffset) = Inl TypeError"
  by (simp_all add: xReadJournal_def Let_def)

text \<open>
  Claim C6, amended. Let a journal file and its database entry be open in two states,
  the journal header having been written (\<open>cachedPageIndex = -1\<close>) and the recorded page
  indices not negative. When the two states agree on the journal view (the in-memory
  header, the recorded \<open>journalPages\<close>, the in-memory version and block size of the
  database, and the blocks of the database strictly older than that version), a read of
  the same offset into the same buffer returns the same status and the same bytes in both.
  The states may differ in everything else, in particular in the blocks of the current
  version: the page bytes come from the older blocks only.
\<close>

theorem journal_read_determined:
  assumes "mapIdToFile st1 fileId = Some r" and "mapIdToFile st2 fileId = Some r"
    and "isJournal (heap st1 r)" and "isJournal (heap st2 r)"
    and "mapPathToFile st1 (getJournalDatabasePath (heap st1 r)) = Some d"
    and "mapPathToFile st2 (getJournalDatabasePath (heap st2 r)) = Some d"
    and "cachedPageIndex (heap st1 r) = Some (- 1)"
    and "cachedPageIndex (heap st2 r) = Some (- 1)"
    and "\<forall>jp. journalPages (heap st1 d) = Some jp \<longrightarrow> (\<forall>i \<in> journalled jp. 0 \<le> i)"
    and "journal_view st1 r d = journal_view st2 r d"
  shows "read_result (xRead st1 fileId pData iOffset)
           = read_result (xRead st2 fileId pData iOffset)"
proof -
  let ?hdr = "data (block0 (heap st1 r))"
  let ?p = "getJournalDatabasePath (heap st1 r)"
  let ?es = "int (length (data (block0 (heap st1 d)))) + 8"
  have w: "?p = getJournalDatabasePath (heap st2 r)"
    "?hdr = data (block0 (heap st2 r))"
    "journalPages (heap st1 d) = journalPages (heap st2 d)"
    "version (block0 (heap st1 d)) = version (block0 (heap st2 d))"
    "length (data (block0 (heap st1 d))) = length (data (block0 (heap st2 d)))"
    "pre_transaction (blocks st1) ?p (version (block0 (heap st1 d)))
       = pre_transaction (blocks st2) ?p (version (block0 (heap st1 d)))"
    using assms(10) by (auto simp: journal_view_def)
  note v = w [symmetric]
  have m2: "mapPathToFile st2 (getJournalDatabasePath (heap st2 r)) = Some d"
    by (rule assms(6))
  have x: "xRead st1 fileId pData iOffset = xReadJournal st1 r pData iOffset"
    "xRead st2 fileId pData iOffset = xReadJournal st2 r pData iOffset"
    using assms(1-4) by (simp_all add: xRead_def)
  show ?thesis
  proof (cases "getUint32 ?hdr 20")
    case (Inl e)
    then show ?thesis
      unfolding x using xReadJournal_failed(1) [of st1 r e] xReadJournal_failed(1) [of st2 r e] v(2)
      by simp
  next
    case (Inr sectorSize)
    then have s2: "getUint32 (data (block0 (heap st2 r))) 20 = Inr sectorSize"
      using v(2) by simp
    consider (neg) "iOffset < 0" | (hdr) "0 \<le> iOffset" "iOffset < sectorSize"
      | (entry) "0 \<le> iOffset" "sectorSize \<le> iOffset"
      by linarith
    then show ?thesis
    proof cases
      case neg
      then show ?thesis
        unfolding x
        using xReadJournal_failed(2) [OF Inr assms(5) neg] xReadJournal_failed(2) [OF s2 m2 neg]
        by simp
    next
      case hdr
      show ?thesis
        unfolding x
        using xReadJournal_header [OF Inr assms(5) hdr] xReadJournal_header [OF s2 m2 hdr] v(2)
        by simp
    next
      case entry
      show ?thesis
      proof (cases "journalPages (heap st1 d)")
        case None
        then have n2: "journalPages (heap st2 d) = None" using v(3) by simp
        show ?thesis
          unfolding x
          using xReadJournal_failed(3) [OF Inr assms(5) entry None]
            xReadJournal_failed(3) [OF s2 m2 entry n2]
          by simp
      next
        case (Some jp)
        then have j2: "journalPages (heap st2 d) = Some jp" using v(3) by simp
        let ?i = "toInt32 ((iOffset - sectorSize) div ?es)"
        have miss: "Some (- 1) \<noteq> array_get jp ?i"
        proof
          assume "Some (- 1) = array_get jp ?i"
          then have "(- 1) \<in> journalled jp" using array_get_journalled [of jp ?i "- 1"] by simp
          then show False using assms(9) Some by auto
        qed
        have c1: "cachedPageIndex (heap st1 r) \<noteq> array_get jp ?i"
          using miss assms(7) by simp
        have c2: "cachedPageIndex (heap st2 r)
                    \<noteq> array_get jp (toInt32 ((iOffset - sectorSize)
                          div (int (length (data (block0 (heap st2 d)))) + 8)))"
          using miss assms(8) v(5) by simp
        have r: "rebuilt_page_entry (blocks st2) ?hdr ?p (block0 (heap st2 d)) (array_get jp ?i)
                 = rebuilt_page_entry (blocks st1) ?hdr ?p (block0 (heap st1 d)) (array_get jp ?i)"
          using v(4,5,6) by (intro rebuilt_page_entry_pre_transaction) simp_all
        show ?thesis
          unfolding x
          using xReadJournal_entry [OF Inr assms(5) entry Some c1]
            xReadJournal_entry [OF s2 m2 entry j2 c2] r v(1,2,5)
          by (simp cong: sum.case_cong)
      qed
    qed
  qed
qed


text \<open>
  Claim C6 as stated fails: between two reads of four bytes at offset 512 of the journal,
  the first bytes of journal entry 0, a write to the journal at offset 512 records another
  page number. It changes neither the records of the store nor the journal header, and
  the second read returns other bytes than the first. (A read changes nothing but the
  entry cached on the file system object, which these reads do not consult.)
\<close>

theorem journal_read_counterexample:
  "xWrite vfs_rollback 2 [0, 0, 0, 3] 512 = Inr (SQLITE_OK, vfs_rewritten)
   \<and> blocks vfs_rewritten = blocks vfs_rollback
   \<and> data (block0 (heap vfs_rewritten 1)) = data (block0 (heap vfs_rollback 1))
   \<and> read_result (xRead vfs_rollback 2 [9, 9, 9, 9] 512) = Inr (SQLITE_OK, [0, 0, 0, 2])
   \<and> read_result (xRead vfs_rewritten 2 [9, 9, 9, 9] 512) = Inr (SQLITE_OK, [0, 0, 0, 3])"
  apply (intro conjI)
      apply (simp add: vfs_rollback_def vfs_rewritten_def journal_header_def vfs_journal_def
        vfs_db_def vfs_empty_def new_entry_def new_block0_def BLOCK_SIZE_def isJournal_def
        SQLITE_OPEN_MAIN_JOURNAL_def SQLITE_OPEN_TEMP_JOURNAL_def update_file_def
        set_fileSize_def getJournalDatabasePath_def strip_journal_def xWrite_def xWriteJournal_def getUint32_def js_rem_def array_store_def
        extend_fileSize_def Let_def nth_append)
     apply (simp add: vfs_rollback_def vfs_rewritten_def journal_header_def vfs_journal_def
        vfs_db_def vfs_empty_def new_entry_def new_block0_def BLOCK_SIZE_def isJournal_def
        SQLITE_OPEN_MAIN_JOURNAL_def SQLITE_OPEN_TEMP_JOURNAL_def update_file_def
        set_fileSize_def getJournalDatabasePath_def strip_journal_def)
    apply (simp add: vfs_rollback_def vfs_rewritten_def journal_header_def vfs_journal_def
        vfs_db_def vfs_empty_def new_entry_def new_block0_def BLOCK_SIZE_def isJournal_def
        SQLITE_OPEN_MAIN_JOURNAL_def SQLITE_OPEN_TEMP_JOURNAL_def update_file_def
        set_fileSize_def getJournalDatabasePath_def strip_journal_def)
   apply (simp add: vfs_rollback_def vfs_rewritten_def journal_header_def vfs_journal_def
        vfs_db_def vfs_empty_def new_entry_def new_block0_def BLOCK_SIZE_def isJournal_def
        SQLITE_OPEN_MAIN_JOURNAL_def SQLITE_OPEN_TEMP_JOURNAL_def update_file_def
        set_fileSize_def getJournalDatabasePath_def strip_journal_def read_result_def xRead_def xReadJournal_def getUint32_def nth_append
        toInt32_def array_get_def refresh_page_entry_def rebuilt_page_entry_def blocks_get_def
        List.map_filter_simps build_page_entry_def setUint32_def uint32_bytes_def ta_set_def
        subarray_def checksum_def Let_def)
  apply (simp add: vfs_rollback_def vfs_rewritten_def journal_header_def vfs_journal_def
        vfs_db_def vfs_empty_def new_entry_def new_block0_def BLOCK_SIZE_def isJournal_def
        SQLITE_OPEN_MAIN_JOURNAL_def SQLITE_OPEN_TEMP_JOURNAL_def update_file_def
        set_fileSize_def getJournalDatabasePath_def strip_journal_def read_result_def xRead_def xReadJournal_def getUint32_def nth_append
        toInt32_def array_get_def refresh_page_entry_def rebuilt_page_entry_def blocks_get_def
        List.map_filter_simps build_page_entry_def setUint32_def uint32_bytes_def ta_set_def
        subarray_def checksum_def Let_def)
  done

theorem journal_read_determined_witness:
  "mapIdToFile vfs_rollback 2 = Some 1 \<and> mapIdToFile vfs_rollback_other 2 = Some 1
   \<and> isJournal (heap vfs_rollback 1) \<and> isJournal (heap vfs_rollback_other 1)
   \<and> mapPathToFile vfs_rollback (getJournalDatabasePath (heap vfs_rollback 1)) = Some 0
   \<and> mapPathToFile vfs_rollback_other (getJournalDatabasePath (heap vfs_rollback_other 1)) = Some 0
   \<and> cachedPageIndex (heap vfs_rollback 1) = Some (- 1)
   \<and> cachedPageIndex (heap vfs_rollback_other 1) = Some (- 1)
   \<and> journalPages (heap vfs_rollback 0) = Some [Some 1]
   \<and> journal_view vfs_rollback 1 0 = journal_view vfs_rollback_other 1 0
   \<and> blocks vfs_rollback \<noteq> blocks vfs_rollback_other
   \<and> read_result (xRead vfs_rollback_other 2 [9, 9, 9, 9] 512)
        = read_result (xRead vfs_rollback 2 [9, 9, 9, 9] 512)"
proof -
  have h: "mapIdToFile vfs_rollback 2 = Some 1" "mapIdToFile vfs_rollback_other 2 = Some 1"
    "isJournal (heap vfs_rollback 1)" "isJournal (heap vfs_rollback_other 1)"
    "mapPathToFile vfs_rollback (getJournalDatabasePath (heap vfs_rollback 1)) = Some 0"
    "mapPathToFile vfs_rollback_other (getJournalDatabasePath (heap vfs_rollback_other 1)) = Some 0"
    "cachedPageIndex (heap vfs_rollback 1) = Some (- 1)"
    "cachedPageIndex (heap vfs_rollback_other 1) = Some (- 1)"
    by (simp_all add: vfs_rollback_def vfs_rewritten_def journal_header_def vfs_journal_def
        vfs_db_def vfs_empty_def new_entry_def new_block0_def BLOCK_SIZE_def isJournal_def
        SQLITE_OPEN_MAIN_JOURNAL_def SQLITE_OPEN_TEMP_JOURNAL_def update_file_def
        set_fileSize_def getJournalDatabasePath_def strip_journal_def vfs_rollback_other_def)
  have j: "journalPages (heap vfs_rollback 0) = Some [Some 1]"
    by (simp add: vfs_rollback_def vfs_rewritten_def journal_header_def vfs_journal_def
        vfs_db_def vfs_empty_def new_entry_def new_block0_def BLOCK_SIZE_def isJournal_def
        SQLITE_OPEN_MAIN_JOURNAL_def SQLITE_OPEN_TEMP_JOURNAL_def update_file_def
        set_fileSize_def getJournalDatabasePath_def strip_journal_def)
  have p: "\<forall>jp. journalPages (heap vfs_rollback 0) = Some jp \<longrightarrow> (\<forall>i \<in> journalled jp. 0 \<le> i)"
    by (simp add: j journalled_def in_these_eq)
  have v: "journal_view vfs_rollback 1 0 = journal_view vfs_rollback_other 1 0"
    by (simp add: journal_view_def pre_transaction_def vfs_rollback_def vfs_rewritten_def journal_header_def vfs_journal_def
        vfs_db_def vfs_empty_def new_entry_def new_block0_def BLOCK_SIZE_def isJournal_def
        SQLITE_OPEN_MAIN_JOURNAL_def SQLITE_OPEN_TEMP_JOURNAL_def update_file_def
        set_fileSize_def getJournalDatabasePath_def strip_journal_def vfs_rollback_other_def
          List.map_filter_simps)
  have d: "blocks vfs_rollback \<noteq> blocks vfs_rollback_other"
    by (simp add: vfs_rollback_def vfs_rewritten_def journal_header_def vfs_journal_def
        vfs_db_def vfs_empty_def new_entry_def new_block0_def BLOCK_SIZE_def isJournal_def
        SQLITE_OPEN_MAIN_JOURNAL_def SQLITE_OPEN_TEMP_JOURNAL_def update_file_def
        set_fileSize_def getJournalDatabasePath_def strip_journal_def vfs_rollback_other_def)
  show ?thesis
    using journal_read_determined [OF h p v, of "[9, 9, 9, 9]" 512] h j v d by simp
qed

end
